theory Spec2Isabelle
  imports Complex_Main
begin

section \<open>The ephemeris solar position calculator of pvlib/solarposition.py\<close>

text \<open>
  The function \<^verbatim>\<open>ephemeris\<close> is a vectorised numpy computation over a batch of
  UTC instants. Its float64 values are modelled by the real numbers: rounding, NaN,
  infinities and signed zeros are not represented. Arrays are lists, one element per
  instant; an elementwise numpy operation is a \<open>map\<close> over the batch. At a pole of the
  tangent and at a division by zero the real functions of HOL give 0, where float64
  gives a huge or infinite number; no statement below rests on a value there (the masks
  of the refraction keep such elements out of the result). Two steps whose float64
  rounding changes what a caller sees, the addition of line 344 and the argument of
  the arcsine of line 346, are modelled a second time with the rounding written out.
\<close>

subsection \<open>The numpy functions the code calls\<close>

definition np_radians :: "real \<Rightarrow> real" where
  "np_radians d = d * pi / 180"

definition np_degrees :: "real \<Rightarrow> real" where
  "np_degrees r = r * 180 / pi"

definition np_floor :: "real \<Rightarrow> real" where
  "np_floor x = of_int \<lfloor>x\<rfloor>"

text \<open>\<^verbatim>\<open>np.mod\<close> takes the sign of the divisor (floored division).\<close>

definition np_mod :: "real \<Rightarrow> real \<Rightarrow> real" where
  "np_mod a n = a - n * of_int \<lfloor>a / n\<rfloor>"

text \<open>\<^verbatim>\<open>np.arctan2 y x\<close>: the angle of the point \<open>(x, y)\<close>, in \<open>[-pi, pi]\<close>.\<close>

definition np_arctan2 :: "real \<Rightarrow> real \<Rightarrow> real" where
  "np_arctan2 y x =
     (if 0 < x then arctan (y / x)
      else if x < 0 \<and> 0 \<le> y then arctan (y / x) + pi
      else if x < 0 \<and> y < 0 then arctan (y / x) - pi
      else if 0 < y then pi / 2
      else if y < 0 then - (pi / 2)
      else 0)"

text \<open>
  The exceptions of the function: \<^verbatim>\<open>np.max\<close> of an empty array raises ValueError,
  the division of Python floats by zero raises ZeroDivisionError, and reading an
  attribute that an argument does not have raises AttributeError.
\<close>

datatype error = ValueError | ZeroDivisionError | AttributeError

fun np_max :: "real list \<Rightarrow> error + real" where
  "np_max [] = Inl ValueError"
| "np_max (x # xs) = Inr (fold max xs x)"

subsection \<open>Inputs and output\<close>

text \<open>
  \<open>time_utc\<close> holds the calendar fields the code reads from one element of the
  DatetimeIndex after \<^verbatim>\<open>localize_to_utc\<close> (a function of pvlib.tools); \<open>location\<close>
  the two attributes of the Location object that are read; \<open>sun_row\<close> is one row of the
  DataFrame returned.
\<close>

record time_utc =
  year :: int
  dayofyear :: int
  hour :: int
  minute :: int
  second :: int
  microsecond :: int

record location =
  latitude :: real
  longitude :: real

record sun_row =
  elevation :: real
  azimuth :: real
  zenith :: real
  apparent_elevation :: real
  apparent_zenith :: real
  solar_time :: real

subsection \<open>Time, sidereal time and orbital elements (lines 276 to 320)\<close>

definition Longitude :: "location \<Rightarrow> real" where
  "Longitude loc = -1 * longitude loc"

definition Abber :: real where
  "Abber = 20 / 3600"

definition DecHours :: "time_utc \<Rightarrow> real" where
  "DecHours t = of_int (hour t) + of_int (minute t) / 60 + of_int (second t) / 3600
                + of_int (microsecond t) / 3600000000"

definition Yr :: "time_utc \<Rightarrow> real" where
  "Yr t = of_int (year t - 1900)"

definition YrBegin :: "time_utc \<Rightarrow> real" where
  "YrBegin t = 365 * Yr t + np_floor ((Yr t - 1) / 4) - 0.5"

definition Ezero :: "time_utc \<Rightarrow> real" where
  "Ezero t = YrBegin t + of_int (dayofyear t)"

definition T :: "time_utc \<Rightarrow> real" where
  "T t = Ezero t / 36525"

definition GMST0 :: "time_utc \<Rightarrow> real" where
  "GMST0 t =
     (let g = 6 / 24 + 38 / 1440 + (45.836 + 8640184.542 * T t + 0.0929 * (T t)\<^sup>2) / 86400
      in 360 * (g - np_floor g))"

definition GMSTi :: "time_utc \<Rightarrow> real" where
  "GMSTi t = np_mod (GMST0 t + 360 * (1.0027379093 * DecHours t / 24)) 360"

definition LocAST :: "real \<Rightarrow> real \<Rightarrow> real" where
  "LocAST gmsti lon = np_mod (360 + gmsti - lon) 360"

definition EpochDate :: "time_utc \<Rightarrow> real" where
  "EpochDate t = Ezero t + DecHours t / 24"

definition T1 :: "time_utc \<Rightarrow> real" where
  "T1 t = EpochDate t / 36525"

definition ObliquityR :: "time_utc \<Rightarrow> real" where
  "ObliquityR t =
     np_radians (23.452294 - 0.0130125 * T1 t - 0.00000164 * (T1 t)\<^sup>2 + 0.000000503 * (T1 t) ^ 3)"

definition MlPerigee :: "time_utc \<Rightarrow> real" where
  "MlPerigee t = 281.22083 + 0.0000470684 * EpochDate t + 0.000453 * (T1 t)\<^sup>2 + 0.000003 * (T1 t) ^ 3"

definition MeanAnom :: "time_utc \<Rightarrow> real" where
  "MeanAnom t =
     np_mod (358.47583 + 0.985600267 * EpochDate t - 0.00015 * (T1 t)\<^sup>2 - 0.000003 * (T1 t) ^ 3) 360"

definition Eccen :: "time_utc \<Rightarrow> real" where
  "Eccen t = 0.01675104 - 0.0000418 * T1 t - 0.000000126 * (T1 t)\<^sup>2"

subsection \<open>The Kepler loop (lines 321 to 326)\<close>

text \<open>
  \<^verbatim>\<open>
  EccenAnom = MeanAnom
  E = 0
  while np.max(abs(EccenAnom - E)) > 0.0001:
      E = EccenAnom
      EccenAnom = MeanAnom + np.degrees(Eccen) * (np.sin(np.radians(E)))
  \<close>
  The loop has no bound on its iterations, so it is a partial function: \<open>None\<close> is the
  run that never leaves the loop. The state is the pair of arrays \<open>(EccenAnom, E)\<close>;
  the scalar \<open>E = 0\<close> of the first test is broadcast over the batch.
\<close>

definition kepler_update :: "real \<Rightarrow> real \<Rightarrow> real \<Rightarrow> real" where
  "kepler_update m ec e = m + np_degrees ec * sin (np_radians e)"

definition kepler_body :: "real list \<Rightarrow> real list \<Rightarrow> real list \<Rightarrow> real list" where
  "kepler_body ms ecs es = map (\<lambda>(m, ec, e). kepler_update m ec e) (zip ms (zip ecs es))"

definition abs_change :: "real list \<Rightarrow> real list \<Rightarrow> real list" where
  "abs_change xs es = map (\<lambda>(x, e). \<bar>x - e\<bar>) (zip xs es)"

partial_function (option)
  kepler_while :: "real list \<Rightarrow> real list \<Rightarrow> real list \<Rightarrow> real list
                     \<Rightarrow> (error + real list \<times> real list) option"
where
  "kepler_while ms ecs EccenAnom E =
     (case np_max (abs_change EccenAnom E) of
        Inl err \<Rightarrow> Some (Inl err)
      | Inr d \<Rightarrow>
          if d > 0.0001 then kepler_while ms ecs (kepler_body ms ecs EccenAnom) EccenAnom
          else Some (Inr (EccenAnom, E)))"

definition kepler_solve :: "real list \<Rightarrow> real list \<Rightarrow> (error + real list \<times> real list) option" where
  "kepler_solve ms ecs = kepler_while ms ecs ms (replicate (length ms) 0)"

subsection \<open>Ecliptic and equatorial coordinates (lines 328 to 336)\<close>

text \<open>
  \<open>x ** 0.5\<close> is the square root (the code applies it to a positive ratio). Where the
  half angle is a pole of the tangent, float64 has no pole: \<^verbatim>\<open>np.tan\<close> returns a number
  of the order of \<open>10^16\<close> with the sign of the angle, and \<^verbatim>\<open>np.arctan2\<close> of it is a
  right angle. An eccentric anomaly of exactly 180 is the only such point within the
  range of the Kepler loop, and the true anomaly there is 180.
\<close>

definition TrueAnom :: "real \<Rightarrow> real \<Rightarrow> real" where
  "TrueAnom ec ea =
     (let half = np_radians ea / 2;
          a = (if cos half = 0 then (if 0 < ea then pi / 2 else - (pi / 2))
               else np_arctan2 (sqrt ((1 + ec) / (1 - ec)) * tan half) 1)
      in 2 * np_mod (np_degrees a) 360)"

definition EcLon :: "real \<Rightarrow> real \<Rightarrow> real" where
  "EcLon mlperigee trueanom = np_mod (mlperigee + trueanom) 360 - Abber"

definition DecR :: "real \<Rightarrow> real \<Rightarrow> real" where
  "DecR obliquityr eclonr = arcsin (sin obliquityr * sin eclonr)"

definition RtAscen :: "real \<Rightarrow> real \<Rightarrow> real" where
  "RtAscen obliquityr eclonr = np_degrees (np_arctan2 (cos obliquityr * sin eclonr) (cos eclonr))"

subsection \<open>Hour angle, azimuth, elevation and solar time (lines 338 to 350)\<close>

text \<open>
  \<^verbatim>\<open>
  HrAngle = LocAST - RtAscen
  HrAngleR = np.radians(HrAngle)
  HrAngle = HrAngle - (360 * ((abs(HrAngle) > 180)))
  \<close>
  \<open>HrAngleR\<close> is taken from the difference before it is wrapped.
\<close>

definition HrAngleR :: "real \<Rightarrow> real \<Rightarrow> real" where
  "HrAngleR locast rtascen = np_radians (locast - rtascen)"

definition HrAngle :: "real \<Rightarrow> real \<Rightarrow> real" where
  "HrAngle locast rtascen =
     (let h = locast - rtascen in h - 360 * (if \<bar>h\<bar> > 180 then 1 else 0))"

text \<open>
  \<open>SunAz0\<close> is the array of lines 342 and 343; \<^verbatim>\<open>SunAz[SunAz < 0] += 360\<close> then adds
  360 to its negative elements, in place. \<open>SunAz_wrap\<close> and \<open>SunEl\<close> are these lines in
  exact arithmetic. In float64 the sum of a negative azimuth above \<open>-2^(-45)\<close> and 360
  is rounded to 360, and the rounded argument of \<^verbatim>\<open>np.arcsin\<close> can exceed 1, where the
  result is NaN: \<open>SunAz_wrap_float64\<close> and \<open>SunEl_arg_float64\<close> below are the same two
  steps with the rounding.
\<close>

definition SunAz0 :: "real \<Rightarrow> real \<Rightarrow> real \<Rightarrow> real" where
  "SunAz0 latr decr hrangler =
     np_degrees (np_arctan2 (-1 * sin hrangler) (cos latr * tan decr - sin latr * cos hrangler))"

definition SunAz_wrap :: "real \<Rightarrow> real" where
  "SunAz_wrap az = (if az < 0 then az + 360 else az)"

definition SunAz :: "real \<Rightarrow> real \<Rightarrow> real \<Rightarrow> real" where
  "SunAz latr decr hrangler = SunAz_wrap (SunAz0 latr decr hrangler)"

definition SunEl :: "real \<Rightarrow> real \<Rightarrow> real \<Rightarrow> real" where
  "SunEl latr decr hrangler =
     np_degrees (arcsin (cos latr * cos decr * cos hrangler + sin latr * sin decr))"

definition SolarTime :: "real \<Rightarrow> real" where
  "SolarTime hrangle = (180 + hrangle) / 15"

subsection \<open>Refraction (lines 352 to 368)\<close>

text \<open>
  \<open>Refract\<close> starts as zero and is overwritten under three masks, in the order of the
  code: each \<open>Refract_set\<close> is one masked assignment, on one element, from the element's
  elevation, its tangent and the value the element had. \<open>Refract_raw\<close> is the element
  before the scaling of line 366.
\<close>

definition Refract_set1 :: "real \<Rightarrow> real \<Rightarrow> real \<Rightarrow> real" where
  "Refract_set1 Elevation TanEl r =
     (if Elevation > 5 \<and> Elevation \<le> 85
      then 58.1 / TanEl - 0.07 / TanEl ^ 3 + 0.000086 / TanEl ^ 5 else r)"

definition Refract_set2 :: "real \<Rightarrow> real \<Rightarrow> real" where
  "Refract_set2 Elevation r =
     (if Elevation > -0.575 \<and> Elevation \<le> 5
      then Elevation * (-518.2 + Elevation * (103.4 + Elevation * (-12.79 + Elevation * 0.711))) + 1735
      else r)"

definition Refract_set3 :: "real \<Rightarrow> real \<Rightarrow> real \<Rightarrow> real" where
  "Refract_set3 Elevation TanEl r =
     (if Elevation > -1 \<and> Elevation \<le> -0.575 then -20.774 / TanEl else r)"

definition Refract_raw :: "real \<Rightarrow> real" where
  "Refract_raw Elevation =
     (let TanEl = tan (np_radians Elevation)
      in Refract_set3 Elevation TanEl (Refract_set2 Elevation (Refract_set1 Elevation TanEl 0)))"

text \<open>
  The factor of line 366. With Python floats, the default and the documented type of
  the two arguments, \<open>283/(273. + temperature)\<close> raises ZeroDivisionError when the sum is
  zero. (A numpy scalar or a DataFrame would give an infinite factor instead; they are
  not modelled.)
\<close>

definition refract_scale :: "real \<Rightarrow> real \<Rightarrow> error + real" where
  "refract_scale pressure temperature =
     (if 273 + temperature = 0 then Inl ZeroDivisionError
      else Inr ((283 / (273 + temperature)) * (pressure / 101325) / 3600))"

definition Refract :: "real \<Rightarrow> real \<Rightarrow> real \<Rightarrow> error + real" where
  "Refract Elevation pressure temperature =
     (case refract_scale pressure temperature of
        Inl err \<Rightarrow> Inl err
      | Inr k \<Rightarrow> Inr (Refract_raw Elevation * k))"

subsection \<open>The output table (lines 328 to 379)\<close>

text \<open>
  Lines 328 to 350 for one instant, from the converged eccentric anomaly \<open>ea\<close> of that
  instant: the azimuth before line 344, the elevation and the solar time.
\<close>

definition sun_position :: "location \<Rightarrow> time_utc \<Rightarrow> real \<Rightarrow> real \<times> real \<times> real" where
  "sun_position loc t ea =
     (let latr = np_radians (latitude loc);
          trueanom = TrueAnom (Eccen t) ea;
          eclon = EcLon (MlPerigee t) trueanom;
          eclonr = np_radians eclon;
          decr = DecR (ObliquityR t) eclonr;
          rtascen = RtAscen (ObliquityR t) eclonr;
          locast = LocAST (GMSTi t) (Longitude loc);
          hrangler = HrAngleR locast rtascen;
          hrangle = HrAngle locast rtascen;
          sunaz0 = SunAz0 latr decr hrangler;
          sunel = SunEl latr decr hrangler;
          solartime = SolarTime hrangle
      in (sunaz0, sunel, solartime))"

text \<open>The wrapped hour angle of line 340 at one instant.\<close>

definition hour_angle_of :: "location \<Rightarrow> time_utc \<Rightarrow> real \<Rightarrow> real" where
  "hour_angle_of loc t ea =
     HrAngle (LocAST (GMSTi t) (Longitude loc))
       (RtAscen (ObliquityR t) (np_radians (EcLon (MlPerigee t) (TrueAnom (Eccen t) ea))))"

text \<open>
  One row of the DataFrame, from the instant, its eccentric anomaly and the scale factor
  \<open>k\<close> of the refraction.
\<close>

definition ephemeris_row :: "location \<Rightarrow> real \<Rightarrow> time_utc \<Rightarrow> real \<Rightarrow> sun_row" where
  "ephemeris_row loc k t ea =
     (case sun_position loc t ea of
        (sunaz0, sunel, solartime) \<Rightarrow>
          (let sunaz = SunAz_wrap sunaz0;
               refract = Refract_raw sunel * k;
               apparentsunel = sunel + refract
           in \<lparr>elevation = sunel, azimuth = sunaz, zenith = 90 - sunel,
               apparent_elevation = apparentsunel, apparent_zenith = 90 - apparentsunel,
               solar_time = solartime\<rparr>))"

text \<open>
  The whole function: the orbital elements of every instant, the Kepler loop over the
  batch, then one row per instant. \<open>None\<close> is a call that does not return.
\<close>

definition ephemeris ::
  "time_utc list \<Rightarrow> location \<Rightarrow> real \<Rightarrow> real \<Rightarrow> (error + sun_row list) option" where
  "ephemeris time loc pressure temperature =
     (case kepler_solve (map MeanAnom time) (map Eccen time) of
        None \<Rightarrow> None
      | Some (Inl err) \<Rightarrow> Some (Inl err)
      | Some (Inr (EccenAnom, E)) \<Rightarrow>
          (case refract_scale pressure temperature of
             Inl err \<Rightarrow> Some (Inl err)
           | Inr k \<Rightarrow> Some (Inr (map (\<lambda>(t, ea). ephemeris_row loc k t ea) (zip time EccenAnom)))))"

subsection \<open>The function on a store of objects\<close>

text \<open>
  Python passes the DatetimeIndex and the Location by reference, and the function updates
  three of the objects it creates in place: the array \<open>SunAz\<close> (line 344), the Series
  \<open>Refract\<close> (lines 357 to 366) and the DataFrame \<open>DFOut\<close> (lines 372 to 377). It also
  hands one record to the module's logger (line 265). To state what a call does to the
  objects it is given, the run is modelled a second time on a store: a list of objects,
  an object's address being its position, together with the records of the logger.
  Arrays that no statement updates in place are kept as values. Pressure and temperature
  are Python floats, which are immutable, and are passed as values. The Series that the
  code combines all carry the index \<open>time_utc\<close>, so pandas aligns them position by
  position.
\<close>

datatype obj =
    Times "time_utc list"
  | Loc location
  | Arr "real list"
  | Frame "(string \<times> real list) list"

record world =
  heap :: "obj list"
  log :: "(obj option \<times> real \<times> real) list"

text \<open>
  Reading an address, creating an object at the next free address, and replacing an
  object in place. \<open>set_column\<close> is \<^verbatim>\<open>DFOut[c] = xs\<close> for a column name that the frame
  does not have yet.
\<close>

definition lookup :: "world \<Rightarrow> nat \<Rightarrow> obj option" where
  "lookup w a = (if a < length (heap w) then Some (heap w ! a) else None)"

definition alloc :: "obj \<Rightarrow> world \<Rightarrow> nat \<times> world" where
  "alloc ob w = (length (heap w), w\<lparr>heap := heap w @ [ob]\<rparr>)"

definition store :: "nat \<Rightarrow> obj \<Rightarrow> world \<Rightarrow> world" where
  "store a ob w = w\<lparr>heap := (heap w)[a := ob]\<rparr>"

definition array_at :: "world \<Rightarrow> nat \<Rightarrow> real list" where
  "array_at w a = (case lookup w a of Some (Arr xs) \<Rightarrow> xs | _ \<Rightarrow> [])"

definition set_column :: "nat \<Rightarrow> string \<Rightarrow> real list \<Rightarrow> world \<Rightarrow> world" where
  "set_column a c xs w =
     (case lookup w a of Some (Frame cols) \<Rightarrow> store a (Frame (cols @ [(c, xs)])) w | _ \<Rightarrow> w)"

text \<open>Lines 342 to 344: a new array, then 360 added in place to its negative elements.\<close>

definition new_SunAz :: "real list \<Rightarrow> world \<Rightarrow> nat \<times> world" where
  "new_SunAz sunaz0 w =
     (let (SunAz_ref, w1) = alloc (Arr sunaz0) w;
          w2 = store SunAz_ref (Arr (map SunAz_wrap (array_at w1 SunAz_ref))) w1
      in (SunAz_ref, w2))"

text \<open>
  Lines 353 to 364: \<open>Elevation\<close> is another name of the array \<open>SunEl\<close>; \<open>Refract\<close> is
  a new Series of zeros over the \<open>n\<close> instants, assigned three times under a mask.
\<close>

definition new_Refract :: "nat \<Rightarrow> nat \<Rightarrow> world \<Rightarrow> nat \<times> world" where
  "new_Refract n Elevation_ref w =
     (let TanEl = map (\<lambda>e. tan (np_radians e)) (array_at w Elevation_ref);
          (Refract_ref, w1) = alloc (Arr (replicate n 0)) w;
          w2 = store Refract_ref
                 (Arr (map (\<lambda>(el, tanel, r). Refract_set1 el tanel r)
                         (zip (array_at w1 Elevation_ref) (zip TanEl (array_at w1 Refract_ref))))) w1;
          w3 = store Refract_ref
                 (Arr (map (\<lambda>(el, r). Refract_set2 el r)
                         (zip (array_at w2 Elevation_ref) (array_at w2 Refract_ref)))) w2;
          w4 = store Refract_ref
                 (Arr (map (\<lambda>(el, tanel, r). Refract_set3 el tanel r)
                         (zip (array_at w3 Elevation_ref) (zip TanEl (array_at w3 Refract_ref))))) w3
      in (Refract_ref, w4))"

text \<open>Line 366: \<^verbatim>\<open>Refract *= ...\<close> scales the Series in place.\<close>

definition scale_Refract :: "nat \<Rightarrow> real \<Rightarrow> world \<Rightarrow> world" where
  "scale_Refract Refract_ref k w = store Refract_ref (Arr (map (\<lambda>r. r * k) (array_at w Refract_ref))) w"

text \<open>Lines 368 to 377: the new DataFrame and its six columns.\<close>

definition new_DFOut :: "nat \<Rightarrow> nat \<Rightarrow> nat \<Rightarrow> real list \<Rightarrow> world \<Rightarrow> nat \<times> world" where
  "new_DFOut SunEl_ref SunAz_ref Refract_ref SolarTime_arr w =
     (let ApparentSunEl = map (\<lambda>(e, r). e + r) (zip (array_at w SunEl_ref) (array_at w Refract_ref));
          (DFOut, w1) = alloc (Frame []) w;
          w2 = set_column DFOut ''elevation'' (array_at w1 SunEl_ref) w1;
          w3 = set_column DFOut ''azimuth'' (array_at w2 SunAz_ref) w2;
          w4 = set_column DFOut ''zenith'' (map (\<lambda>e. 90 - e) (array_at w3 SunEl_ref)) w3;
          w5 = set_column DFOut ''apparent_elevation'' ApparentSunEl w4;
          w6 = set_column DFOut ''apparent_zenith'' (map (\<lambda>e. 90 - e) ApparentSunEl) w5;
          w7 = set_column DFOut ''solar_time'' SolarTime_arr w6
      in (DFOut, w7))"

text \<open>
  The call. Line 265 comes first: the logger gets the location object as it is, with
  temperature and pressure. An argument that is not a DatetimeIndex or not a Location
  has none of the attributes the code reads afterwards (AttributeError).
  \<^verbatim>\<open>localize_to_utc\<close> is a function of pvlib.tools; it is taken to return a new index
  with the UTC fields of \<open>time\<close>, which \<open>Times\<close> holds already.
\<close>

definition ephemeris_heap ::
  "world \<Rightarrow> nat \<Rightarrow> nat \<Rightarrow> real \<Rightarrow> real \<Rightarrow> ((error + nat) \<times> world) option" where
  "ephemeris_heap w0 time_ref loc_ref pressure temperature =
     (let w1 = w0\<lparr>log := log w0 @ [(lookup w0 loc_ref, temperature, pressure)]\<rparr> in
      case (lookup w1 time_ref, lookup w1 loc_ref) of
        (Some (Times time), Some (Loc loc)) \<Rightarrow>
          (case kepler_solve (map MeanAnom time) (map Eccen time) of
             None \<Rightarrow> None
           | Some (Inl err) \<Rightarrow> Some (Inl err, w1)
           | Some (Inr (EccenAnom, E)) \<Rightarrow>
               (let pos = map (\<lambda>(t, ea). sun_position loc t ea) (zip time EccenAnom);
                    (SunAz_ref, w2) = new_SunAz (map fst pos) w1;
                    (SunEl_ref, w3) = alloc (Arr (map (fst \<circ> snd) pos)) w2;
                    SolarTime_arr = map (snd \<circ> snd) pos;
                    (Refract_ref, w4) = new_Refract (length time) SunEl_ref w3
                in case refract_scale pressure temperature of
                     Inl err \<Rightarrow> Some (Inl err, w4)
                   | Inr k \<Rightarrow>
                       (let w5 = scale_Refract Refract_ref k w4;
                            (DFOut, w6) = new_DFOut SunEl_ref SunAz_ref Refract_ref SolarTime_arr w5
                        in Some (Inr DFOut, w6))))
      | _ \<Rightarrow> Some (Inl AttributeError, w1))"

text \<open>The DataFrame that holds the rows: its columns, in the order of lines 372 to 377.\<close>

definition columns :: "sun_row list \<Rightarrow> (string \<times> real list) list" where
  "columns rows =
     [(''elevation'', map elevation rows), (''azimuth'', map azimuth rows),
      (''zenith'', map zenith rows), (''apparent_elevation'', map apparent_elevation rows),
      (''apparent_zenith'', map apparent_zenith rows), (''solar_time'', map solar_time rows)]"

text \<open>The outcome of a call, read in a store: the error, or the object returned.\<close>

definition table :: "world \<Rightarrow> error + nat \<Rightarrow> error + obj option" where
  "table w res = (case res of Inl err \<Rightarrow> Inl err | Inr a \<Rightarrow> Inr (lookup w a))"

subsection \<open>The capped solver of the specification\<close>




subsection \<open>float64 rounding\<close>

text \<open>
  Rounding of a real number to the nearest float64, ties to the even significand: 53
  bits, so that a number of magnitude in \<open>[2^e, 2^(e+1))\<close> is rounded to a multiple of
  \<open>2^(e-52)\<close>. Overflow and subnormal numbers are left out; the numbers rounded below
  lie between \<open>2^(-4)\<close> and \<open>2^9\<close>. An IEEE addition or multiplication is the exact
  result, rounded.
\<close>

definition pow2 :: "int \<Rightarrow> real" where
  "pow2 k = (if 0 \<le> k then 2 ^ nat k else 1 / 2 ^ nat (- k))"

definition round_half_even :: "real \<Rightarrow> int" where
  "round_half_even y =
     (let f = \<lfloor>y\<rfloor>; d = y - of_int f
      in if d < 1 / 2 then f else if 1 / 2 < d then f + 1 else if even f then f else f + 1)"

definition float64_round :: "real \<Rightarrow> real" where
  "float64_round x =
     (if x = 0 then 0
      else let ulp = pow2 (\<lfloor>Transcendental.log 2 \<bar>x\<bar>\<rfloor> - 52)
           in of_int (round_half_even (x / ulp)) * ulp)"

text \<open>
  Line 344 on one element, and the argument of \<^verbatim>\<open>np.arcsin\<close> in lines 346 to 348 from
  the float64 cosines and sines of latitude, declination and hour angle, in the order
  Python evaluates it. \<^verbatim>\<open>np.arcsin\<close> of an argument above 1 is NaN.
\<close>

definition SunAz_wrap_float64 :: "real \<Rightarrow> real" where
  "SunAz_wrap_float64 az = (if az < 0 then float64_round (az + 360) else az)"

definition SunEl_arg_float64 :: "real \<Rightarrow> real \<Rightarrow> real \<Rightarrow> real \<Rightarrow> real \<Rightarrow> real" where
  "SunEl_arg_float64 cl cd ch sl sd =
     float64_round (float64_round (float64_round (cl * cd) * ch) + float64_round (sl * sd))"

subsection \<open>The refraction table of the specification\<close>

text \<open>
  The piecewise model as section 4.4 of the specification tabulates it, one branch per
  half-open range of the elevation, to be compared with \<open>Refract_raw\<close>.
\<close>

definition refraction_table :: "real \<Rightarrow> real" where
  "refraction_table e =
     (if 5 < e \<and> e \<le> 85
        then 58.1 / tan (np_radians e) - 0.07 / tan (np_radians e) ^ 3 + 0.000086 / tan (np_radians e) ^ 5
      else if -0.575 < e \<and> e \<le> 5
        then e * (-518.2 + e * (103.4 + e * (-12.79 + e * 0.711))) + 1735
      else if -1 < e \<and> e \<le> -0.575
        then -20.774 / tan (np_radians e)
      else 0)"

subsection \<open>Calendar instants\<close>

text \<open>
  The fields of an instant that a Python datetime can hold: years 1 to 9999, a day of
  the year, and a time of the day to the microsecond.
\<close>

definition calendar_time :: "time_utc \<Rightarrow> bool" where
  "calendar_time t \<longleftrightarrow>
     1 \<le> year t \<and> year t \<le> 9999 \<and> 1 \<le> dayofyear t \<and> dayofyear t \<le> 366 \<and>
     0 \<le> hour t \<and> hour t \<le> 23 \<and> 0 \<le> minute t \<and> minute t \<le> 59 \<and>
     0 \<le> second t \<and> second t \<le> 59 \<and> 0 \<le> microsecond t \<and> microsecond t \<le> 999999"

subsection \<open>An example call\<close>

abbreviation (input) example_time :: time_utc where
  "example_time \<equiv>
     \<lparr>year = 2003, dayofyear = 290, hour = 19, minute = 30, second = 0, microsecond = 0\<rparr>"

abbreviation (input) example_halfpast :: time_utc where
  "example_halfpast \<equiv>
     \<lparr>year = 2003, dayofyear = 290, hour = 0, minute = 30, second = 0, microsecond = 0\<rparr>"

abbreviation (input) example_location :: location where
  "example_location \<equiv> \<lparr>latitude = 39.75, longitude = -105\<rparr>"

abbreviation (input) example_world :: world where
  "example_world \<equiv> \<lparr>heap = [Times [example_time], Loc example_location], log = []\<rparr>"

section \<open>Properties of the numpy functions and of the stages\<close>

subsection \<open>Ranges\<close>

lemma np_mod_360_range: "0 \<le> np_mod a 360 \<and> np_mod a 360 < 360"
proof -
  have "of_int \<lfloor>a / 360\<rfloor> \<le> a / 360" "a / 360 < of_int \<lfloor>a / 360\<rfloor> + 1"
    by linarith+
  then show ?thesis unfolding np_mod_def by (simp add: field_simps)
qed

lemma np_arctan2_range: "- pi \<le> np_arctan2 y x \<and> np_arctan2 y x \<le> pi"
proof -
  have a: "- (pi / 2) < arctan (y / x)" "arctan (y / x) < pi / 2"
    by (rule arctan_lbound, rule arctan_ubound)
  have z: "x < 0 \<Longrightarrow> 0 \<le> y \<Longrightarrow> arctan (y / x) \<le> 0"
    by (simp add: divide_nonneg_neg arctan_le_zero_iff)
  have z': "x < 0 \<Longrightarrow> y < 0 \<Longrightarrow> 0 \<le> arctan (y / x)"
    by (simp add: zero_le_arctan_iff divide_nonpos_neg)
  show ?thesis using a z z' pi_gt_zero unfolding np_arctan2_def by auto
qed

lemma np_degrees_range: "- pi \<le> r \<Longrightarrow> r \<le> pi \<Longrightarrow> -180 \<le> np_degrees r \<and> np_degrees r \<le> 180"
  using pi_gt_zero unfolding np_degrees_def by (simp add: field_simps)

lemma np_degrees_half_range:
  "- (pi / 2) \<le> r \<Longrightarrow> r \<le> pi / 2 \<Longrightarrow> -90 \<le> np_degrees r \<and> np_degrees r \<le> 90"
  using pi_gt_zero unfolding np_degrees_def by (simp add: field_simps)

lemma cos_sin_product_bound:
  "\<bar>cos a * cos b * cos h + sin a * sin b\<bar> \<le> (1::real)"
proof -
  have "\<bar>cos a * cos b * cos h + sin a * sin b\<bar> \<le> \<bar>cos a * cos b\<bar> * \<bar>cos h\<bar> + \<bar>sin a * sin b\<bar>"
    by (metis abs_mult abs_triangle_ineq)
  also have "\<dots> \<le> \<bar>cos a * cos b\<bar> + \<bar>sin a * sin b\<bar>"
    using abs_cos_le_one [of h] by (simp add: mult_left_le)
  also have "\<dots> \<le> 1"
  proof -
    have "\<bar>cos a * cos b\<bar> + \<bar>sin a * sin b\<bar> = \<bar>cos (a - b)\<bar> \<or>
          \<bar>cos a * cos b\<bar> + \<bar>sin a * sin b\<bar> = \<bar>cos (a + b)\<bar>"
      unfolding cos_diff cos_add by (auto simp: abs_if not_less mult_le_0_iff zero_le_mult_iff split: if_splits)
    then show ?thesis using abs_cos_le_one by metis
  qed
  finally show ?thesis .
qed

lemma SunEl_range: "-90 \<le> SunEl latr decr h \<and> SunEl latr decr h \<le> 90"
proof -
  let ?x = "cos latr * cos decr * cos h + sin latr * sin decr"
  have "-1 \<le> ?x" "?x \<le> 1" using cos_sin_product_bound [of latr decr h] by (simp_all add: abs_le_iff)
  then have "- (pi / 2) \<le> arcsin ?x" "arcsin ?x \<le> pi / 2"
    using arcsin_lbound [of ?x] arcsin_ubound [of ?x] by auto
  then show ?thesis unfolding SunEl_def by (rule np_degrees_half_range)
qed

lemma SunAz_range: "0 \<le> SunAz latr decr h \<and> SunAz latr decr h < 360"
proof -
  have "-180 \<le> SunAz0 latr decr h \<and> SunAz0 latr decr h \<le> 180" unfolding SunAz0_def
    using np_arctan2_range by (intro np_degrees_range) auto
  then show ?thesis unfolding SunAz_def SunAz_wrap_def by auto
qed

lemma RtAscen_range: "-180 \<le> RtAscen ob l \<and> RtAscen ob l \<le> 180"
  unfolding RtAscen_def using np_arctan2_range by (intro np_degrees_range) auto

lemma LocAST_range: "0 \<le> LocAST g l \<and> LocAST g l < 360"
  unfolding LocAST_def by (rule np_mod_360_range)

lemma HrAngle_range:
  assumes "0 \<le> locast" "locast < 360" "-180 \<le> rtascen" "rtascen \<le> 180"
  shows "-180 \<le> HrAngle locast rtascen \<and> HrAngle locast rtascen \<le> 180"
  using assms unfolding HrAngle_def Let_def by (auto simp: abs_if split: if_splits)

subsection \<open>The Kepler iteration is a contraction\<close>

lemma abs_sin_diff_le: "\<bar>sin x - sin y\<bar> \<le> \<bar>x - y\<bar>" for x y :: real
proof -
  have "\<bar>sin x - sin y\<bar> = 2 * \<bar>sin ((x - y) / 2)\<bar> * \<bar>cos ((x + y) / 2)\<bar>"
    by (simp add: sin_diff_sin abs_mult)
  also have "\<dots> \<le> 2 * \<bar>sin ((x - y) / 2)\<bar> * 1"
    by (intro mult_left_mono abs_cos_le_one) simp
  also have "\<dots> \<le> 2 * \<bar>(x - y) / 2\<bar>"
    using abs_sin_x_le_abs_x [of "(x - y) / 2"] by simp
  finally show ?thesis by simp
qed

lemma kepler_update_contracts:
  assumes "0 \<le> ec" "ec \<le> c"
  shows "\<bar>kepler_update m ec a - kepler_update m ec e\<bar> \<le> c * \<bar>a - e\<bar>"
proof -
  have "\<bar>kepler_update m ec a - kepler_update m ec e\<bar>
          = np_degrees ec * \<bar>sin (np_radians a) - sin (np_radians e)\<bar>"
  proof -
    have "kepler_update m ec a - kepler_update m ec e
            = np_degrees ec * (sin (np_radians a) - sin (np_radians e))"
      by (simp add: kepler_update_def right_diff_distrib)
    moreover have "0 \<le> np_degrees ec" using assms by (simp add: np_degrees_def)
    ultimately show ?thesis by (simp add: abs_mult)
  qed
  also have "\<dots> \<le> np_degrees ec * \<bar>np_radians a - np_radians e\<bar>"
    using assms pi_gt_zero by (intro mult_left_mono abs_sin_diff_le) (simp add: np_degrees_def)
  also have "\<dots> = ec * \<bar>a - e\<bar>"
  proof -
    have "np_radians a - np_radians e = (a - e) * (pi / 180)"
      unfolding np_radians_def by (simp add: left_diff_distrib)
    then have "\<bar>np_radians a - np_radians e\<bar> = \<bar>(a - e) * (pi / 180)\<bar>"
      by (rule arg_cong)
    also have "\<dots> = \<bar>a - e\<bar> * (pi / 180)"
      by (simp add: abs_mult)
    finally have r: "\<bar>np_radians a - np_radians e\<bar> = \<bar>a - e\<bar> * (pi / 180)" .
    show ?thesis unfolding r np_degrees_def using pi_gt_zero by simp
  qed
  also have "\<dots> \<le> c * \<bar>a - e\<bar>"
    using assms by (intro mult_right_mono) auto
  finally show ?thesis .
qed

lemma kepler_update_first:
  assumes "0 \<le> ec" "ec \<le> 0.02"
  shows "\<bar>kepler_update m ec e - m\<bar> \<le> 1.8"
proof -
  have "\<bar>kepler_update m ec e - m\<bar> = np_degrees ec * \<bar>sin (np_radians e)\<bar>"
    using assms pi_gt_zero by (simp add: kepler_update_def np_degrees_def abs_mult)
  also have "\<dots> \<le> np_degrees ec * 1"
    using assms pi_gt_zero by (intro mult_left_mono) (simp_all add: np_degrees_def)
  also have "\<dots> \<le> 1.8"
  proof -
    have "ec * 180 \<le> 3.6" using assms by simp
    also have "\<dots> \<le> 1.8 * pi" using pi_ge_two by simp
    finally show ?thesis using pi_gt_zero by (simp add: np_degrees_def field_simps)
  qed
  finally show ?thesis .
qed

lemma np_max_bound:
  assumes "xs \<noteq> []"
  shows "\<exists>m. np_max xs = Inr m \<and> (\<forall>d. m \<le> d \<longleftrightarrow> (\<forall>x\<in>set xs. x \<le> d))"
proof (cases xs)
  case Nil
  with assms show ?thesis by simp
next
  case (Cons x ys)
  have "np_max xs = Inr (Max (set xs))"
    unfolding Cons np_max.simps Max.set_eq_fold ..
  moreover have "\<forall>d. Max (set xs) \<le> d \<longleftrightarrow> (\<forall>x\<in>set xs. x \<le> d)"
    using assms by (simp add: Max_le_iff)
  ultimately show ?thesis by blast
qed

lemma abs_change_within:
  assumes "length A = length E"
  shows "(\<forall>x\<in>set (abs_change A E). x \<le> d) \<longleftrightarrow> list_all2 (\<lambda>a e. \<bar>a - e\<bar> \<le> d) A E"
  using assms unfolding abs_change_def list_all2_iff by auto

lemma length_abs_change: "length (abs_change A E) = min (length A) (length E)"
  by (simp add: abs_change_def)

lemma length_kepler_body:
  "length (kepler_body ms ecs es) = min (length ms) (min (length ecs) (length es))"
  by (simp add: kepler_body_def)

lemma nth_kepler_body:
  assumes "i < length ms" "i < length ecs" "i < length es"
  shows "kepler_body ms ecs es ! i = kepler_update (ms ! i) (ecs ! i) (es ! i)"
  using assms by (simp add: kepler_body_def)

lemma kepler_body_contracts:
  assumes len: "length ecs = length ms" "length A = length ms" "length E = length ms"
    and ecs: "\<forall>ec\<in>set ecs. 0 \<le> ec \<and> ec \<le> c"
    and c: "0 \<le> c"
    and d: "list_all2 (\<lambda>a e. \<bar>a - e\<bar> \<le> d) A E"
  shows "list_all2 (\<lambda>a e. \<bar>a - e\<bar> \<le> c * d) (kepler_body ms ecs A) (kepler_body ms ecs E)"
proof (rule list_all2_all_nthI)
  show "length (kepler_body ms ecs A) = length (kepler_body ms ecs E)"
    using len by (simp add: length_kepler_body)
next
  fix i assume "i < length (kepler_body ms ecs A)"
  then have i: "i < length ms" by (simp add: length_kepler_body)
  then have ec: "0 \<le> ecs ! i" "ecs ! i \<le> c" using ecs len by (simp_all add: all_set_conv_all_nth)
  have "\<bar>A ! i - E ! i\<bar> \<le> d" using d i len by (simp add: list_all2_conv_all_nth)
  then have "c * \<bar>A ! i - E ! i\<bar> \<le> c * d" using c by (rule mult_left_mono)
  with kepler_update_contracts [OF ec, of "ms ! i" "A ! i" "E ! i"]
  show "\<bar>kepler_body ms ecs A ! i - kepler_body ms ecs E ! i\<bar> \<le> c * d"
    using i len by (simp add: nth_kepler_body)
qed

lemma kepler_body_first:
  assumes len: "length ecs = length ms" "length E = length ms"
    and ecs: "\<forall>ec\<in>set ecs. 0 \<le> ec \<and> ec \<le> 0.02"
  shows "list_all2 (\<lambda>a e. \<bar>a - e\<bar> \<le> 1.8) (kepler_body ms ecs E) ms"
proof (rule list_all2_all_nthI)
  show "length (kepler_body ms ecs E) = length ms"
    using len by (simp add: length_kepler_body)
next
  fix i assume "i < length (kepler_body ms ecs E)"
  then have i: "i < length ms" by (simp add: length_kepler_body)
  then have ec: "0 \<le> ecs ! i" "ecs ! i \<le> 0.02" using ecs len by (simp_all add: all_set_conv_all_nth)
  show "\<bar>kepler_body ms ecs E ! i - ms ! i\<bar> \<le> 1.8"
    using kepler_update_first [OF ec] i len by (simp add: nth_kepler_body)
qed

lemma kepler_while_converges:
  assumes len: "length ecs = length ms" "length E = length ms" and ne: "ms \<noteq> []"
    and ecs: "\<forall>ec\<in>set ecs. 0 \<le> ec \<and> ec \<le> c"
    and c: "0 \<le> c"
    and d: "list_all2 (\<lambda>a e. \<bar>a - e\<bar> \<le> d) (kepler_body ms ecs E) E"
    and k: "d * c ^ k \<le> 0.0001"
  shows "\<exists>A' E'. kepler_while ms ecs (kepler_body ms ecs E) E = Some (Inr (A', E'))
           \<and> length A' = length ms \<and> length E' = length ms
           \<and> (\<exists>m. np_max (abs_change A' E') = Inr m \<and> m \<le> 0.0001)"
  using len(2) d k
proof (induction k arbitrary: E d)
  case 0
  let ?A = "kepler_body ms ecs E"
  have lenA: "length ?A = length ms" using len 0 by (simp add: length_kepler_body)
  then have "abs_change ?A E \<noteq> []" using ne 0
    by (metis length_abs_change length_0_conv min.idem)
  then obtain m where m: "np_max (abs_change ?A E) = Inr m"
    "\<And>b. m \<le> b \<longleftrightarrow> (\<forall>x\<in>set (abs_change ?A E). x \<le> b)"
    using np_max_bound by blast
  have "m \<le> d" using m(2) abs_change_within [of ?A E d] lenA 0 by simp
  then have "m \<le> 0.0001" using 0 by simp
  then show ?case using m(1) lenA 0
    by (subst kepler_while.simps) simp
next
  case (Suc k)
  let ?A = "kepler_body ms ecs E"
  have lenA: "length ?A = length ms" using len Suc by (simp add: length_kepler_body)
  then have "abs_change ?A E \<noteq> []" using ne Suc
    by (metis length_abs_change length_0_conv min.idem)
  then obtain m where m: "np_max (abs_change ?A E) = Inr m"
    using np_max_bound by blast
  show ?case
  proof (cases "m > 0.0001")
    case True
    have "list_all2 (\<lambda>a e. \<bar>a - e\<bar> \<le> c * d) (kepler_body ms ecs ?A) ?A"
      using kepler_body_contracts [OF len(1) lenA Suc.prems(1) ecs c Suc.prems(2)] .
    moreover have "c * d * c ^ k \<le> 0.0001" using Suc.prems(3) by (simp add: mult.commute mult.left_commute)
    ultimately have "\<exists>A' E'. kepler_while ms ecs (kepler_body ms ecs ?A) ?A = Some (Inr (A', E'))
           \<and> length A' = length ms \<and> length E' = length ms
           \<and> (\<exists>m. np_max (abs_change A' E') = Inr m \<and> m \<le> 0.0001)"
      using Suc.IH [OF lenA] by blast
    then show ?thesis using m True
      by (subst kepler_while.simps) simp
  next
    case False
    then show ?thesis using m lenA Suc.prems(1)
      by (subst kepler_while.simps) simp
  qed
qed

lemma kepler_solve_converges:
  assumes len: "length ecs = length ms" and ne: "ms \<noteq> []"
    and ecs: "\<forall>ec\<in>set ecs. 0 \<le> ec \<and> ec \<le> 0.02"
  shows "\<exists>A' E'. kepler_solve ms ecs = Some (Inr (A', E'))
           \<and> length A' = length ms \<and> length E' = length ms
           \<and> (\<exists>m. np_max (abs_change A' E') = Inr m \<and> m \<le> 0.0001)"
proof -
  let ?Z = "replicate (length ms) (0::real)"
  have "abs_change ms ?Z \<noteq> []" using ne
    by (metis length_abs_change length_0_conv length_replicate min.idem)
  then obtain m where m: "np_max (abs_change ms ?Z) = Inr m"
    using np_max_bound by blast
  show ?thesis
  proof (cases "m > 0.0001")
    case True
    have "(1.8::real) * 0.02 ^ 3 \<le> 0.0001" by (simp add: power3_eq_cube)
    from kepler_while_converges [OF len refl ne ecs _ kepler_body_first [OF len refl ecs] this]
    have "\<exists>A' E'. kepler_while ms ecs (kepler_body ms ecs ms) ms = Some (Inr (A', E'))
           \<and> length A' = length ms \<and> length E' = length ms
           \<and> (\<exists>m. np_max (abs_change A' E') = Inr m \<and> m \<le> 0.0001)" by simp
    then show ?thesis unfolding kepler_solve_def using m True
      by (subst kepler_while.simps) simp
  next
    case False
    then show ?thesis unfolding kepler_solve_def using m
      by (subst kepler_while.simps) simp
  qed
qed

subsection \<open>What the loop returns, and a run that never ends\<close>

lemma np_max_Inl: "np_max xs = Inl err \<Longrightarrow> err = ValueError \<and> xs = []"
  by (cases xs) auto

lemma kepler_while_exit:
  assumes "kepler_while ms ecs A E = Some r"
  shows "length ecs = length ms \<longrightarrow> length A = length ms \<longrightarrow> length E = length ms \<longrightarrow>
         (case r of
            Inl err \<Rightarrow> err = ValueError \<and> ms = []
          | Inr (A', E') \<Rightarrow> length A' = length ms
              \<and> (\<exists>m. np_max (abs_change A' E') = Inr m \<and> m \<le> 0.0001)
              \<and> ((A', E') = (A, E) \<or> A' = kepler_body ms ecs E'))"
  using assms
proof (induction ms ecs A E r rule: kepler_while.raw_induct [rotated 1, consumes 1, case_names step])
  case (step kw ms ecs A E r)
  show ?case
  proof (intro impI)
    assume len: "length ecs = length ms" "length A = length ms" "length E = length ms"
    show "case r of
            Inl err \<Rightarrow> err = ValueError \<and> ms = []
          | Inr (A', E') \<Rightarrow> length A' = length ms
              \<and> (\<exists>m. np_max (abs_change A' E') = Inr m \<and> m \<le> 0.0001)
              \<and> ((A', E') = (A, E) \<or> A' = kepler_body ms ecs E')"
    proof (cases "np_max (abs_change A E)")
      case (Inl err)
      then have "err = ValueError" "abs_change A E = []" using np_max_Inl by blast+
      then have "ms = []" using len length_abs_change [of A E] by simp
      with Inl \<open>err = ValueError\<close> step(2) show ?thesis by auto
    next
      case (Inr d)
      show ?thesis
      proof (cases "d > 0.0001")
        case True
        then have "kw ms ecs (kepler_body ms ecs A) A = Some r" using step(2) Inr by simp
        from step(1) [OF this] show ?thesis using len
          by (auto simp: length_kepler_body split: sum.splits)
      next
        case False
        then have "r = Inr (A, E)" using step(2) Inr by simp
        then show ?thesis using Inr False len by simp
      qed
    qed
  qed
qed

lemma kepler_update_cycle:
  "kepler_update 90 (pi / 2) 90 = 180" "kepler_update 90 (pi / 2) 180 = 90"
  by (simp_all add: kepler_update_def np_degrees_def np_radians_def)

lemma kepler_while_cycle:
  assumes "kepler_while ms ecs A E = Some r"
  shows "\<not> (ms = [90] \<and> ecs = [pi / 2] \<and>
            ((A = [90] \<and> E = [0]) \<or> (A = [180] \<and> E = [90]) \<or> (A = [90] \<and> E = [180])))"
  using assms
proof (induction ms ecs A E r rule: kepler_while.raw_induct [rotated 1, consumes 1, case_names step])
  case (step kw ms ecs A E r)
  note IH = step(1) and eq = step(2)
  show ?case
  proof
    assume c: "ms = [90] \<and> ecs = [pi / 2] \<and>
            ((A = [90] \<and> E = [0]) \<or> (A = [180] \<and> E = [90]) \<or> (A = [90] \<and> E = [180]))"
    then consider (a) "A = [90]" "E = [0]" | (b) "A = [180]" "E = [90]" | (c) "A = [90]" "E = [180]"
      by blast
    then show False
    proof cases
      case a
      then have "kw ms ecs [180] [90] = Some r"
        using eq c by (simp add: abs_change_def kepler_body_def kepler_update_cycle)
      from IH [OF this] show False using c by simp
    next
      case b
      then have "kw ms ecs [90] [180] = Some r"
        using eq c by (simp add: abs_change_def kepler_body_def kepler_update_cycle)
      from IH [OF this] show False using c by simp
    next
      case c
      then have "kw ms ecs [180] [90] = Some r"
        using eq \<open>ms = [90] \<and> _\<close> by (simp add: abs_change_def kepler_body_def kepler_update_cycle)
      from IH [OF this] show False using \<open>ms = [90] \<and> _\<close> by simp
    qed
  qed
qed

lemma kepler_solve_loops: "kepler_solve [90] [pi / 2] = None"
proof (cases "kepler_solve [90] [pi / 2]")
  case None
  then show ?thesis .
next
  case (Some r)
  then have "kepler_while [90] [pi / 2] [90] [0] = Some r" by (simp add: kepler_solve_def)
  from kepler_while_cycle [OF this] show ?thesis by simp
qed

subsection \<open>The rows of the table\<close>

lemma Refract_raw_table: "Refract_raw e = refraction_table e"
  unfolding Refract_raw_def Refract_set1_def Refract_set2_def Refract_set3_def
    refraction_table_def Let_def by auto

lemma refract_scale_Inr:
  "refract_scale p t = Inr k \<longleftrightarrow> 273 + t \<noteq> 0 \<and> k = (283 / (273 + t)) * (p / 101325) / 3600"
  unfolding refract_scale_def by auto

lemma ephemeris_rows:
  assumes "ephemeris time loc pressure temperature = Some (Inr rows)"
  shows "\<exists>EccenAnom k. refract_scale pressure temperature = Inr k
           \<and> rows = map (\<lambda>(t, ea). ephemeris_row loc k t ea) (zip time EccenAnom)"
  using assms unfolding ephemeris_def
  by (auto split: option.splits sum.splits prod.splits)

lemma ephemeris_row_of:
  assumes "ephemeris time loc pressure temperature = Some (Inr rows)" "r \<in> set rows"
  shows "\<exists>t ea k. refract_scale pressure temperature = Inr k \<and> t \<in> set time \<and> r = ephemeris_row loc k t ea"
proof -
  from ephemeris_rows [OF assms(1)] obtain EccenAnom k where
    k: "refract_scale pressure temperature = Inr k"
    and rows: "rows = map (\<lambda>(t, ea). ephemeris_row loc k t ea) (zip time EccenAnom)" by blast
  from assms(2) rows obtain t ea where "(t, ea) \<in> set (zip time EccenAnom)" "r = ephemeris_row loc k t ea"
    by auto
  moreover from this have "t \<in> set time" by (meson set_zip_leftD)
  ultimately show ?thesis using k by blast
qed

lemma ephemeris_returns:
  assumes "time \<noteq> []" "\<forall>t\<in>set time. 0 \<le> Eccen t \<and> Eccen t \<le> 0.02" "273 + temperature \<noteq> 0"
  shows "\<exists>rows. ephemeris time loc pressure temperature = Some (Inr rows) \<and> length rows = length time"
proof -
  have "\<exists>A' E'. kepler_solve (map MeanAnom time) (map Eccen time) = Some (Inr (A', E'))
           \<and> length A' = length (map MeanAnom time) \<and> length E' = length (map MeanAnom time)
           \<and> (\<exists>m. np_max (abs_change A' E') = Inr m \<and> m \<le> 0.0001)"
    using assms by (intro kepler_solve_converges) auto
  then obtain A' E' where "kepler_solve (map MeanAnom time) (map Eccen time) = Some (Inr (A', E'))"
    "length A' = length time" by auto
  then show ?thesis using assms(3) unfolding ephemeris_def refract_scale_def by simp
qed

lemma ephemeris_row_sel:
  "elevation (ephemeris_row loc k t ea) =
     SunEl (np_radians (latitude loc))
       (DecR (ObliquityR t) (np_radians (EcLon (MlPerigee t) (TrueAnom (Eccen t) ea))))
       (HrAngleR (LocAST (GMSTi t) (Longitude loc))
          (RtAscen (ObliquityR t) (np_radians (EcLon (MlPerigee t) (TrueAnom (Eccen t) ea)))))"
  "azimuth (ephemeris_row loc k t ea) =
     SunAz (np_radians (latitude loc))
       (DecR (ObliquityR t) (np_radians (EcLon (MlPerigee t) (TrueAnom (Eccen t) ea))))
       (HrAngleR (LocAST (GMSTi t) (Longitude loc))
          (RtAscen (ObliquityR t) (np_radians (EcLon (MlPerigee t) (TrueAnom (Eccen t) ea)))))"
  "zenith (ephemeris_row loc k t ea) = 90 - elevation (ephemeris_row loc k t ea)"
  "apparent_elevation (ephemeris_row loc k t ea) =
     elevation (ephemeris_row loc k t ea) + Refract_raw (elevation (ephemeris_row loc k t ea)) * k"
  "apparent_zenith (ephemeris_row loc k t ea) = 90 - apparent_elevation (ephemeris_row loc k t ea)"
  "solar_time (ephemeris_row loc k t ea) =
     SolarTime (HrAngle (LocAST (GMSTi t) (Longitude loc))
          (RtAscen (ObliquityR t) (np_radians (EcLon (MlPerigee t) (TrueAnom (Eccen t) ea)))))"
  unfolding ephemeris_row_def sun_position_def SunAz_def Let_def by simp_all


subsection \<open>The call returns on calendar instants\<close>

text \<open>
  On calendar instants the eccentricity of line 320 stays within \<open>[0, 0.02]\<close>, so the
  Kepler loop ends and the call returns one row for every instant.
\<close>

lemma DecHours_calendar:
  assumes "calendar_time t"
  shows "0 \<le> DecHours t \<and> DecHours t < 24"
proof -
  have "0 \<le> (of_int (hour t) :: real)" "(of_int (hour t) :: real) \<le> 23"
    "0 \<le> (of_int (minute t) :: real)" "(of_int (minute t) :: real) \<le> 59"
    "0 \<le> (of_int (second t) :: real)" "(of_int (second t) :: real) \<le> 59"
    "0 \<le> (of_int (microsecond t) :: real)" "(of_int (microsecond t) :: real) \<le> 999999"
    using assms unfolding calendar_time_def by simp_all
  then show ?thesis unfolding DecHours_def by (simp add: field_simps)
qed

lemma epoch_bounds:
  fixes y fl dy dh :: real
  assumes "-1899 \<le> y" "y \<le> 8099" "1 \<le> dy" "dy \<le> 366" "fl \<le> (y - 1) / 4" "(y - 1) / 4 - 1 < fl"
    "0 \<le> dh" "dh \<le> 1"
  shows "-693612 \<le> 365 * y + fl - 0.5 + dy + dh" and "365 * y + fl - 0.5 + dy + dh \<le> 2958527"
  using assms by argo+

lemma T1_calendar:
  assumes "calendar_time t"
  shows "-20 \<le> T1 t \<and> T1 t \<le> 82"
proof -
  have y: "-1899 \<le> Yr t" "Yr t \<le> 8099"
    using assms unfolding calendar_time_def Yr_def by simp_all
  have d: "1 \<le> (of_int (dayofyear t) :: real)" "(of_int (dayofyear t) :: real) \<le> 366"
    using assms unfolding calendar_time_def by simp_all
  have f: "np_floor ((Yr t - 1) / 4) \<le> (Yr t - 1) / 4" "(Yr t - 1) / 4 - 1 < np_floor ((Yr t - 1) / 4)"
    unfolding np_floor_def by linarith+
  have h: "0 \<le> DecHours t / 24" "DecHours t / 24 \<le> 1"
    using DecHours_calendar [OF assms] by simp_all
  have "-693612 \<le> EpochDate t" "EpochDate t \<le> 2958527"
    unfolding EpochDate_def Ezero_def YrBegin_def
    by (rule epoch_bounds [OF y d f h])+
  then show ?thesis unfolding T1_def by simp
qed

lemma eccen_bounds:
  fixes x s :: real
  assumes "-20 \<le> x" "x \<le> 82" "0 \<le> s" "s \<le> 6724"
  shows "0 \<le> 0.01675104 - 0.0000418 * x - 0.000000126 * s \<and>
         0.01675104 - 0.0000418 * x - 0.000000126 * s \<le> 0.02"
  using assms by simp

lemma Eccen_calendar:
  assumes "calendar_time t"
  shows "0 \<le> Eccen t \<and> Eccen t \<le> 0.02"
proof -
  from T1_calendar [OF assms] have b: "-20 \<le> T1 t" "T1 t \<le> 82" by simp_all
  then have "\<bar>T1 t\<bar> \<le> \<bar>82\<bar>" by simp
  then have "(T1 t)\<^sup>2 \<le> 82\<^sup>2" by (rule abs_le_square_iff [THEN iffD1])
  then have q: "(T1 t)\<^sup>2 \<le> 6724" "0 \<le> (T1 t)\<^sup>2" by simp_all
  show ?thesis unfolding Eccen_def by (rule eccen_bounds [OF b q(2) q(1)])
qed

lemma ephemeris_returns_calendar:
  assumes "time \<noteq> []" "\<forall>t\<in>set time. calendar_time t" "273 + temperature \<noteq> 0"
  shows "\<exists>rows. ephemeris time loc pressure temperature = Some (Inr rows) \<and> length rows = length time"
  using assms Eccen_calendar by (intro ephemeris_returns) auto

subsection \<open>Reduction mod 360 of a shifted argument\<close>

lemma np_mod_shift: "np_mod (a - 360 * of_int k) 360 = np_mod a 360"
proof -
  have "(a - 360 * of_int k) / 360 = a / 360 - of_int k" by (simp add: field_simps)
  then have "\<lfloor>(a - 360 * of_int k) / 360\<rfloor> = \<lfloor>a / 360 - of_int k\<rfloor>" by (rule arg_cong)
  also have "\<dots> = \<lfloor>a / 360\<rfloor> - k" by (rule floor_diff_of_int)
  finally have "\<lfloor>(a - 360 * of_int k) / 360\<rfloor> = \<lfloor>a / 360\<rfloor> - k" .
  then show ?thesis unfolding np_mod_def by (simp add: algebra_simps)
qed


subsection \<open>The run on the store computes the rows of the function\<close>

lemma kepler_solve_length:
  assumes "kepler_solve ms ecs = Some (Inr (A, E))" "length ecs = length ms"
  shows "length A = length ms"
proof -
  have "kepler_while ms ecs ms (replicate (length ms) 0) = Some (Inr (A, E))"
    using assms(1) by (simp add: kepler_solve_def)
  from kepler_while_exit [OF this] assms(2) show ?thesis by simp
qed

lemma zip_maps_same: "zip (map f xs) (map g xs) = map (\<lambda>x. (f x, g x)) xs"
  by (induction xs) auto

lemma zip_self_map: "zip xs (map g xs) = map (\<lambda>x. (x, g x)) xs"
  by (induction xs) auto

lemma Refract_raw_fun:
  "Refract_raw = (\<lambda>x. Refract_set3 x (tan (np_radians x)) (Refract_set2 x (Refract_set1 x (tan (np_radians x)) 0)))"
  by (rule ext) (simp add: Refract_raw_def Let_def)

lemma lookup_log: "lookup (w\<lparr>log := l\<rparr>) a = lookup w a"
  by (simp add: lookup_def)

lemma new_SunAz_heap:
  "new_SunAz xs w = (length (heap w), w\<lparr>heap := heap w @ [Arr (map SunAz_wrap xs)]\<rparr>)"
  by (simp add: new_SunAz_def alloc_def store_def array_at_def lookup_def)

lemma new_Refract_heap:
  assumes "lookup w el = Some (Arr els)" "length els = n"
  shows "new_Refract n el w = (length (heap w), w\<lparr>heap := heap w @ [Arr (map Refract_raw els)]\<rparr>)"
proof -
  have el: "el < length (heap w)" "heap w ! el = Arr els"
    using assms(1) by (auto simp: lookup_def split: if_splits)
  have z: "zip els (zip (map (\<lambda>e. tan (np_radians e)) els) (replicate n 0))
             = map (\<lambda>e. (e, tan (np_radians e), 0)) els"
    using assms(2) by (induction els arbitrary: n) auto
  show ?thesis
    using el
    apply (simp add: new_Refract_def alloc_def store_def array_at_def lookup_def nth_append z
        Let_def)
    apply (simp add: zip_maps_same zip_self_map comp_def Refract_raw_fun)
    done
qed


lemma scale_Refract_heap:
  assumes "heap w = h @ [Arr xs]" "a = length h"
  shows "scale_Refract a k w = w\<lparr>heap := h @ [Arr (map (\<lambda>r. r * k) xs)]\<rparr>"
  using assms by (simp add: scale_Refract_def store_def array_at_def lookup_def)

lemma set_column_last:
  "heap w = h @ [Frame cols] \<Longrightarrow>
   set_column (length h) c xs w = w\<lparr>heap := h @ [Frame (cols @ [(c, xs)])]\<rparr>"
  by (simp add: set_column_def lookup_def store_def)

lemma new_DFOut_heap:
  assumes "heap w = h @ [Arr az, Arr el, Arr rf]"
  shows "new_DFOut (Suc (length h)) (length h) (Suc (Suc (length h))) st w =
           (length h + 3,
            w\<lparr>heap := h @ [Arr az, Arr el, Arr rf,
                   Frame [(''elevation'', el), (''azimuth'', az), (''zenith'', map (\<lambda>e. 90 - e) el),
                          (''apparent_elevation'', map (\<lambda>(e, r). e + r) (zip el rf)),
                          (''apparent_zenith'', map (\<lambda>e. 90 - e) (map (\<lambda>(e, r). e + r) (zip el rf))),
                          (''solar_time'', st)]]\<rparr>)"
proof -
  define H where "H = h @ [Arr az, Arr el, Arr rf]"
  have lH: "length H = length h + 3" by (simp add: H_def)
  have a: "array_at v (length h) = az" "array_at v (Suc (length h)) = el"
    "array_at v (Suc (Suc (length h))) = rf" if "heap v = H @ g" for v g
    using that by (simp_all add: array_at_def lookup_def H_def nth_append)
  have c: "set_column (length h + 3) c xs (w\<lparr>heap := H @ [Frame cols]\<rparr>)
             = w\<lparr>heap := H @ [Frame (cols @ [(c, xs)])]\<rparr>" for c xs cols
    using set_column_last [of "w\<lparr>heap := H @ [Frame cols]\<rparr>" H cols c xs] by (simp add: lH)
  have hw: "heap w = H @ []" using assms by (simp add: H_def)
  have al: "alloc (Frame []) w = (length h + 3, w\<lparr>heap := H @ [Frame []]\<rparr>)"
    using assms by (simp add: alloc_def H_def)
  show ?thesis
    unfolding new_DFOut_def
    apply (simp only: Let_def a [OF hw] al prod.case)
    apply (simp only: c a [of "w\<lparr>heap := H @ [Frame cols]\<rparr>" "[Frame cols]" for cols, simplified] append_Nil append_Cons)
    apply (simp add: H_def)
    done
qed

lemma ephemeris_heap_after_loop:
  assumes tr: "lookup w0 time_ref = Some (Times time)" and lr: "lookup w0 loc_ref = Some (Loc loc)"
    and ks: "kepler_solve (map MeanAnom time) (map Eccen time) = Some (Inr (EccenAnom, E))"
  defines "rows k \<equiv> map (\<lambda>(t, ea). ephemeris_row loc k t ea) (zip time EccenAnom)"
  shows "ephemeris_heap w0 time_ref loc_ref pressure temperature =
           (case refract_scale pressure temperature of
              Inl err \<Rightarrow>
                Some (Inl err,
                      w0\<lparr>log := log w0 @ [(Some (Loc loc), temperature, pressure)],
                         heap := heap w0 @ [Arr (map azimuth (rows 0)), Arr (map elevation (rows 0)),
                                            Arr (map (Refract_raw \<circ> elevation) (rows 0))]\<rparr>)
            | Inr k \<Rightarrow>
                Some (Inr (length (heap w0) + 3),
                      w0\<lparr>log := log w0 @ [(Some (Loc loc), temperature, pressure)],
                         heap := heap w0 @ [Arr (map azimuth (rows k)), Arr (map elevation (rows k)),
                                            Arr (map (\<lambda>r. apparent_elevation r - elevation r) (rows k)),
                                            Frame (columns (rows k))]\<rparr>))"
proof -
  have len: "length EccenAnom = length time"
    using kepler_solve_length [OF ks] by simp
  define ts where "ts = zip time EccenAnom"
  define pos where "pos = map (\<lambda>(t, ea). sun_position loc t ea) ts"
  define w1 where "w1 = w0\<lparr>log := log w0 @ [(lookup w0 loc_ref, temperature, pressure)]\<rparr>"
  define az where "az = map SunAz_wrap (map fst pos)"
  define el where "el = map (fst \<circ> snd) pos"
  define h where "h = heap w0"
  have lel: "length el = length time" by (simp add: el_def pos_def ts_def len)
  have hw1: "heap w1 = h" by (simp add: w1_def h_def)
  have tr1: "lookup w1 time_ref = Some (Times time)" and lr1: "lookup w1 loc_ref = Some (Loc loc)"
    by (simp_all add: w1_def lookup_log tr lr)
  have s1: "new_SunAz (map fst pos) w1 = (length h, w1\<lparr>heap := h @ [Arr az]\<rparr>)"
    by (simp add: new_SunAz_heap hw1 az_def)
  have s2: "alloc (Arr el) (w1\<lparr>heap := h @ [Arr az]\<rparr>) = (Suc (length h), w1\<lparr>heap := h @ [Arr az, Arr el]\<rparr>)"
    by (simp add: alloc_def)
  have s3: "new_Refract (length time) (Suc (length h)) (w1\<lparr>heap := h @ [Arr az, Arr el]\<rparr>)
              = (Suc (Suc (length h)), w1\<lparr>heap := h @ [Arr az, Arr el, Arr (map Refract_raw el)]\<rparr>)"
    by (subst new_Refract_heap [where els = el]) (simp_all add: lookup_def nth_append lel)
  have r1: "map azimuth (rows k) = az" for k
    by (simp add: rows_def az_def pos_def ts_def ephemeris_row_def comp_def split_beta Let_def)
  have r2: "map elevation (rows k) = el" for k
    by (simp add: rows_def el_def pos_def ts_def ephemeris_row_def comp_def split_beta Let_def)
  have r2': "map (Refract_raw \<circ> elevation) (rows k) = map Refract_raw el" for k
    using r2 [of k] by (metis map_map)
  show ?thesis
  proof (cases "refract_scale pressure temperature")
    case (Inl err)
    show ?thesis
      unfolding ephemeris_heap_def
      apply (simp only: prod.case option.case obj.case Let_def ks sum.case w1_def [symmetric]
        tr1 lr1 ts_def [symmetric] pos_def [symmetric] s1 el_def [symmetric] s2 s3 Inl)
      apply (simp add: w1_def h_def r1 r2 r2' lr)
      done
  next
    case (Inr k)
    define rf where "rf = map (\<lambda>r. r * k) (map Refract_raw el)"
    have s4: "scale_Refract (Suc (Suc (length h))) k (w1\<lparr>heap := h @ [Arr az, Arr el, Arr (map Refract_raw el)]\<rparr>)
              = w1\<lparr>heap := h @ [Arr az, Arr el, Arr rf]\<rparr>"
      unfolding rf_def
      by (subst scale_Refract_heap [where h = "h @ [Arr az, Arr el]" and xs = "map Refract_raw el"]) simp_all
    have r3: "map (\<lambda>r. apparent_elevation r - elevation r) (rows k) = rf"
      by (simp add: rows_def rf_def el_def pos_def ts_def ephemeris_row_def comp_def split_beta Let_def)
    have r4: "columns (rows k) =
          [(''elevation'', el), (''azimuth'', az), (''zenith'', map (\<lambda>e. 90 - e) el),
           (''apparent_elevation'', map (\<lambda>(e, r). e + r) (zip el rf)),
           (''apparent_zenith'', map (\<lambda>e. 90 - e) (map (\<lambda>(e, r). e + r) (zip el rf))),
           (''solar_time'', map (snd \<circ> snd) pos)]"
      unfolding columns_def r1 r2 rf_def
      by (simp add: rows_def el_def pos_def ts_def ephemeris_row_def comp_def split_beta Let_def
          zip_maps_same zip_self_map)
    have s5: "new_DFOut (Suc (length h)) (length h) (Suc (Suc (length h))) (map (snd \<circ> snd) pos)
              (w1\<lparr>heap := h @ [Arr az, Arr el, Arr rf]\<rparr>)
            = (length h + 3, w1\<lparr>heap := h @ [Arr az, Arr el, Arr rf, Frame (columns (rows k))]\<rparr>)"
      by (subst new_DFOut_heap [where h = h and az = az and el = el and rf = rf])
         (simp_all add: r4)
    show ?thesis
      unfolding ephemeris_heap_def
      apply (simp only: prod.case option.case obj.case Let_def ks sum.case w1_def [symmetric]
        tr1 lr1 ts_def [symmetric] pos_def [symmetric] s1 el_def [symmetric] s2 s3 Inr s4 s5)
      apply (simp add: w1_def h_def r1 r2 r3 lr)
      done
  qed
qed

lemma ephemeris_heap_refines:
  assumes tr: "lookup w0 time_ref = Some (Times time)" and lr: "lookup w0 loc_ref = Some (Loc loc)"
  shows "case ephemeris time loc pressure temperature of
           None \<Rightarrow> ephemeris_heap w0 time_ref loc_ref pressure temperature = None
         | Some out \<Rightarrow>
             \<exists>res w'. ephemeris_heap w0 time_ref loc_ref pressure temperature = Some (res, w')
               \<and> table w' res = map_sum id (\<lambda>rows. Some (Frame (columns rows))) out
               \<and> take (length (heap w0)) (heap w') = heap w0"
proof (cases "kepler_solve (map MeanAnom time) (map Eccen time)")
  case None
  then show ?thesis by (simp add: ephemeris_def ephemeris_heap_def lookup_log tr lr)
next
  case (Some a)
  show ?thesis
  proof (cases a)
    case (Inl err)
    then show ?thesis using Some
      by (simp add: ephemeris_def ephemeris_heap_def lookup_log tr lr table_def)
  next
    case (Inr p)
    then obtain EccenAnom E where ks: "kepler_solve (map MeanAnom time) (map Eccen time) = Some (Inr (EccenAnom, E))"
      using Some by (cases p) auto
    show ?thesis
      unfolding ephemeris_heap_after_loop [OF tr lr ks]
      by (cases "refract_scale pressure temperature")
         (simp_all add: ephemeris_def ks table_def lookup_def nth_append)
  qed
qed

lemma take_keeps:
  assumes "take (length xs) ys = xs"
  shows "length xs \<le> length ys" and "a < length xs \<Longrightarrow> ys ! a = xs ! a"
proof -
  have "length (take (length xs) ys) = length xs" using assms by simp
  then show "length xs \<le> length ys" by simp
  show "ys ! a = xs ! a" if "a < length xs"
  proof -
    have "take (length xs) ys ! a = ys ! a" using that by simp
    then show ?thesis using assms by simp
  qed
qed

lemma take_keeps_trans:
  assumes "take (length xs) ys = xs" "take (length ys) zs = ys"
  shows "take (length xs) zs = xs"
proof -
  have "length xs \<le> length ys" using assms(1) by (rule take_keeps(1))
  then have "take (length xs) zs = take (length xs) (take (length ys) zs)"
    by (simp add: min_def)
  then show ?thesis using assms by simp
qed

subsection \<open>The loop and the capped solver\<close>




subsection \<open>Rows by position\<close>

lemma ephemeris_rows_nth:
  assumes "ephemeris time loc pressure temperature = Some (Inr rows)"
  shows "\<exists>EccenAnom E k.
           kepler_solve (map MeanAnom time) (map Eccen time) = Some (Inr (EccenAnom, E))
           \<and> refract_scale pressure temperature = Inr k
           \<and> length EccenAnom = length time \<and> length rows = length time
           \<and> (\<forall>i<length time. rows ! i = ephemeris_row loc k (time ! i) (EccenAnom ! i))"
proof -
  from assms obtain EccenAnom E k where
    ks: "kepler_solve (map MeanAnom time) (map Eccen time) = Some (Inr (EccenAnom, E))"
    and k: "refract_scale pressure temperature = Inr k"
    and rows: "rows = map (\<lambda>(t, ea). ephemeris_row loc k t ea) (zip time EccenAnom)"
    unfolding ephemeris_def by (auto split: option.splits sum.splits prod.splits)
  have len: "length EccenAnom = length time"
    using kepler_solve_length [OF ks] by simp
  then have "\<forall>i<length time. rows ! i = ephemeris_row loc k (time ! i) (EccenAnom ! i)"
    by (simp add: rows)
  then show ?thesis using ks k len rows by auto
qed

subsection \<open>Over the reals: the wrap of the hour angle and the ranges of the angles\<close>

text \<open>
  In exact arithmetic line 340 leaves the hour angle in \<open>[-180, 180]\<close>, at \<open>-180\<close> only
  when the difference is exactly \<open>-180\<close>; the azimuth of a row lies in \<open>[0, 360)\<close>
  and its elevation in \<open>[-90, 90]\<close>.
\<close>

lemma HrAngle_wrap:
  "HrAngle (LocAST g l) (RtAscen ob lr)
     = (if 180 < LocAST g l - RtAscen ob lr then LocAST g l - RtAscen ob lr - 360
        else LocAST g l - RtAscen ob lr)
   \<and> -180 \<le> HrAngle (LocAST g l) (RtAscen ob lr)
   \<and> HrAngle (LocAST g l) (RtAscen ob lr) \<le> 180
   \<and> (LocAST g l - RtAscen ob lr \<noteq> -180 \<longrightarrow> -180 < HrAngle (LocAST g l) (RtAscen ob lr))"
  using LocAST_range [of g l] RtAscen_range [of ob lr]
  unfolding HrAngle_def Let_def by (auto simp: abs_if)

lemma rows_ranges_real:
  assumes "ephemeris time loc pressure temperature = Some (Inr rows)" "r \<in> set rows"
  shows "0 \<le> azimuth r \<and> azimuth r < 360 \<and> -90 \<le> elevation r \<and> elevation r \<le> 90"
proof -
  from ephemeris_row_of [OF assms] obtain t ea k where r: "r = ephemeris_row loc k t ea" by blast
  show ?thesis unfolding r ephemeris_row_sel(1,2) using SunAz_range SunEl_range by blast
qed

lemma TrueAnom_180: "TrueAnom ec 180 = 180"
  by (simp add: TrueAnom_def np_radians_def np_degrees_def np_mod_def Let_def)

subsection \<open>Evaluating a float64 rounding\<close>

lemma pow2_powr: "pow2 k = 2 powr of_int k"
proof (cases "0 \<le> k")
  case True
  then have "2 powr real_of_int k = 2 powr real (nat k)" by simp
  also have "\<dots> = 2 ^ nat k" by (rule powr_realpow) simp
  finally show ?thesis using True by (simp add: pow2_def)
next
  case False
  then have "2 powr real_of_int k = 2 powr (- real (nat (- k)))" by simp
  also have "\<dots> = 1 / 2 powr real (nat (- k))" by (simp add: powr_minus_divide)
  also have "2 powr real (nat (- k)) = 2 ^ nat (- k)" by (rule powr_realpow) simp
  finally show ?thesis using False by (simp add: pow2_def)
qed

lemma float64_round_binade:
  assumes "pow2 e \<le> \<bar>x\<bar>" "\<bar>x\<bar> < pow2 (e + 1)"
  shows "float64_round x = of_int (round_half_even (x / pow2 (e - 52))) * pow2 (e - 52)"
proof -
  have p: "0 < pow2 e" by (simp add: pow2_powr)
  then have x: "0 < \<bar>x\<bar>" using assms(1) by linarith
  have "of_int e \<le> Transcendental.log 2 \<bar>x\<bar>"
    using assms(1) x by (simp add: le_log_iff pow2_powr)
  moreover have "Transcendental.log 2 \<bar>x\<bar> < of_int e + 1"
    using assms(2) x by (simp add: log_less_iff pow2_powr)
  ultimately have "\<lfloor>Transcendental.log 2 \<bar>x\<bar>\<rfloor> = e" by linarith
  then show ?thesis using x by (simp add: float64_round_def Let_def)
qed

section \<open>The claims\<close>

subsection \<open>C1: the iteration cap and the convergence error\<close>



subsection \<open>C2: the loop terminates for small eccentricities\<close>

text \<open>
  C2. For every batch whose eccentricities lie in \<open>[0, 0.02]\<close>, whatever the mean
  anomalies (in particular in \<open>[0, 360)\<close>), the iteration started at the mean anomaly
  terminates, and on exit the largest absolute change of the eccentric anomaly over the
  batch is at most 0.0001 degrees. On the batch with no instant \<^verbatim>\<open>np.max\<close> raises
  ValueError, which ends the call as well.
\<close>

theorem kepler_solve_terminates:
  assumes "length ecs = length ms" "\<forall>ec\<in>set ecs. 0 \<le> ec \<and> ec \<le> 0.02"
  shows "if ms = [] then kepler_solve ms ecs = Some (Inl ValueError)
         else \<exists>EccenAnom E m. kepler_solve ms ecs = Some (Inr (EccenAnom, E))
                \<and> length EccenAnom = length ms
                \<and> np_max (abs_change EccenAnom E) = Inr m \<and> m \<le> 0.0001"
proof (cases "ms = []")
  case True
  then show ?thesis
    by (simp add: kepler_solve_def kepler_while.simps abs_change_def)
next
  case False
  from kepler_solve_converges [OF assms(1) False assms(2)] False show ?thesis by auto
qed

theorem kepler_solve_terminates_witness:
  "\<exists>EccenAnom E m. kepler_solve [0, 90, 359] [0.0167, 0.02, 0] = Some (Inr (EccenAnom, E))
      \<and> length EccenAnom = length [0, 90, 359 :: real] \<and> np_max (abs_change EccenAnom E) = Inr m \<and> m \<le> 0.0001"
  using kepler_solve_terminates [of "[0.0167, 0.02, 0]" "[0, 90, 359]"] by simp

subsection \<open>C3: the refraction correction\<close>

text \<open>
  C3. In every row that \<open>ephemeris\<close> returns, the apparent elevation is the true
  elevation plus the raw value of the tabulated branch that contains the true elevation,
  times \<open>(283/(273+temperature)) * (pressure/101325) / 3600\<close>; the same holds of the
  refraction stage at every elevation; and for pressure 0 the correction is zero at every
  elevation, so that the apparent elevation is the true one.
\<close>

theorem refraction_correction:
  assumes "ephemeris time loc pressure temperature = Some (Inr rows)" "r \<in> set rows"
  shows "apparent_elevation r =
           elevation r + refraction_table (elevation r)
                           * ((283 / (273 + temperature)) * (pressure / 101325) / 3600)
         \<and> (\<forall>e. Refract e pressure temperature =
                  Inr (refraction_table e * ((283 / (273 + temperature)) * (pressure / 101325) / 3600)))
         \<and> (pressure = 0 \<longrightarrow> apparent_elevation r = elevation r \<and> (\<forall>e. Refract e pressure temperature = Inr 0))"
proof -
  from ephemeris_row_of [OF assms] obtain t ea k where
    k: "refract_scale pressure temperature = Inr k" and r: "r = ephemeris_row loc k t ea" by blast
  from k have k': "k = (283 / (273 + temperature)) * (pressure / 101325) / 3600"
    by (simp add: refract_scale_Inr)
  have 1: "apparent_elevation r = elevation r + refraction_table (elevation r) * k"
    unfolding r by (simp add: ephemeris_row_sel(4) Refract_raw_table)
  have 2: "Refract e pressure temperature = Inr (refraction_table e * k)" for e
    by (simp add: Refract_def k Refract_raw_table)
  have 3: "pressure = 0 \<Longrightarrow> k = 0" by (simp add: k')
  show ?thesis
  proof (intro conjI allI impI)
    show "apparent_elevation r =
           elevation r + refraction_table (elevation r)
                           * ((283 / (273 + temperature)) * (pressure / 101325) / 3600)"
      using 1 unfolding k' .
    show "Refract e pressure temperature =
            Inr (refraction_table e * ((283 / (273 + temperature)) * (pressure / 101325) / 3600))" for e
      using 2 [of e] unfolding k' .
    show "apparent_elevation r = elevation r" if "pressure = 0"
      using 1 3 [OF that] by simp
    show "Refract e pressure temperature = Inr 0" if "pressure = 0" for e
      using 2 [of e] 3 [OF that] by simp
  qed
qed

theorem refraction_correction_witness:
  "\<exists>r. ephemeris [example_time] example_location 0 12 = Some (Inr [r]) \<and> apparent_elevation r = elevation r
       \<and> Refract 3 0 12 = Inr 0"
proof -
  from ephemeris_returns_calendar [of "[example_time]" 12 example_location 0]
  obtain rows where rows: "ephemeris [example_time] example_location 0 12 = Some (Inr rows)" "length rows = 1"
    by (auto simp: calendar_time_def)
  then obtain r where r: "rows = [r]" by (cases rows) auto
  from refraction_correction [OF rows(1), of r] r rows(1) show ?thesis by simp
qed

subsection \<open>C4: the sign of the longitude\<close>

text \<open>
  C4. The longitude of the caller is negated once (line 277), and every row that
  \<open>ephemeris\<close> returns is computed from the local apparent sidereal time
  \<open>(360 + GMST - negated longitude) mod 360\<close>, that is
  \<open>(360 + GMST + longitude) mod 360\<close> in the caller's east-positive longitude: the solar
  time, the elevation and the azimuth of the row of an instant are those of this
  sidereal time, of the right ascension and declination that follow from the eccentric
  anomaly of the Kepler loop at that instant, and of the latitude; zenith and apparent
  values follow from the elevation. The longitude enters nowhere else.
\<close>

theorem longitude_negated_once:
  assumes "ephemeris time loc pressure temperature = Some (Inr rows)"
  shows "Longitude loc = - longitude loc
         \<and> length rows = length time
         \<and> (\<exists>EccenAnom E k.
               kepler_solve (map MeanAnom time) (map Eccen time) = Some (Inr (EccenAnom, E))
               \<and> refract_scale pressure temperature = Inr k
               \<and> length EccenAnom = length time \<and>
               (\<forall>i<length time.
                  let t = time ! i;
                      locast = np_mod (360 + GMSTi t + longitude loc) 360;
                      eclonr = np_radians (EcLon (MlPerigee t) (TrueAnom (Eccen t) (EccenAnom ! i)));
                      rtascen = RtAscen (ObliquityR t) eclonr;
                      decr = DecR (ObliquityR t) eclonr;
                      latr = np_radians (latitude loc);
                      sunel = SunEl latr decr (np_radians (locast - rtascen))
                  in LocAST (GMSTi t) (Longitude loc) = locast
                     \<and> solar_time (rows ! i) = (180 + HrAngle locast rtascen) / 15
                     \<and> azimuth (rows ! i) = SunAz latr decr (np_radians (locast - rtascen))
                     \<and> elevation (rows ! i) = sunel
                     \<and> zenith (rows ! i) = 90 - sunel
                     \<and> apparent_elevation (rows ! i) = sunel + Refract_raw sunel * k
                     \<and> apparent_zenith (rows ! i) = 90 - (sunel + Refract_raw sunel * k)))"
proof -
  from ephemeris_rows_nth [OF assms] obtain EccenAnom E k where
    ks: "kepler_solve (map MeanAnom time) (map Eccen time) = Some (Inr (EccenAnom, E))"
    and k: "refract_scale pressure temperature = Inr k"
    and len: "length EccenAnom = length time" "length rows = length time"
    and nth: "\<forall>i<length time. rows ! i = ephemeris_row loc k (time ! i) (EccenAnom ! i)" by blast
  have l: "LocAST (GMSTi t) (Longitude loc) = np_mod (360 + GMSTi t + longitude loc) 360" for t
    by (simp add: LocAST_def Longitude_def)
  have "\<forall>i<length time.
          let t = time ! i;
              locast = np_mod (360 + GMSTi t + longitude loc) 360;
              eclonr = np_radians (EcLon (MlPerigee t) (TrueAnom (Eccen t) (EccenAnom ! i)));
              rtascen = RtAscen (ObliquityR t) eclonr;
              decr = DecR (ObliquityR t) eclonr;
              latr = np_radians (latitude loc);
              sunel = SunEl latr decr (np_radians (locast - rtascen))
          in LocAST (GMSTi t) (Longitude loc) = locast
             \<and> solar_time (rows ! i) = (180 + HrAngle locast rtascen) / 15
             \<and> azimuth (rows ! i) = SunAz latr decr (np_radians (locast - rtascen))
             \<and> elevation (rows ! i) = sunel
             \<and> zenith (rows ! i) = 90 - sunel
             \<and> apparent_elevation (rows ! i) = sunel + Refract_raw sunel * k
             \<and> apparent_zenith (rows ! i) = 90 - (sunel + Refract_raw sunel * k)"
    using nth by (simp add: Let_def ephemeris_row_sel l SolarTime_def HrAngleR_def)
  then show ?thesis using ks k len by (auto simp: Longitude_def)
qed

theorem longitude_negated_once_witness:
  "\<exists>r ea E.
      ephemeris [example_time] example_location 101325 12 = Some (Inr [r])
      \<and> kepler_solve [MeanAnom example_time] [Eccen example_time] = Some (Inr ([ea], E))
      \<and> LocAST (GMSTi example_time) (Longitude example_location) = np_mod (360 + GMSTi example_time + (-105)) 360
      \<and> solar_time r =
           (180 + HrAngle (np_mod (360 + GMSTi example_time + (-105)) 360)
                    (RtAscen (ObliquityR example_time)
                       (np_radians (EcLon (MlPerigee example_time) (TrueAnom (Eccen example_time) ea))))) / 15"
proof -
  from ephemeris_returns_calendar [of "[example_time]" 12 example_location 101325]
  obtain rows where rows: "ephemeris [example_time] example_location 101325 12 = Some (Inr rows)" "length rows = 1"
    by (auto simp: calendar_time_def)
  then obtain r where r: "rows = [r]" by (cases rows) auto
  from longitude_negated_once [OF rows(1)] obtain EccenAnom E k where
    ks: "kepler_solve (map MeanAnom [example_time]) (map Eccen [example_time]) = Some (Inr (EccenAnom, E))"
    and len: "length EccenAnom = length [example_time]"
    and nth: "\<forall>i<length [example_time].
          let t = [example_time] ! i;
              locast = np_mod (360 + GMSTi t + longitude example_location) 360;
              eclonr = np_radians (EcLon (MlPerigee t) (TrueAnom (Eccen t) (EccenAnom ! i)));
              rtascen = RtAscen (ObliquityR t) eclonr;
              decr = DecR (ObliquityR t) eclonr;
              latr = np_radians (latitude example_location);
              sunel = SunEl latr decr (np_radians (locast - rtascen))
          in LocAST (GMSTi t) (Longitude example_location) = locast
             \<and> solar_time (rows ! i) = (180 + HrAngle locast rtascen) / 15
             \<and> azimuth (rows ! i) = SunAz latr decr (np_radians (locast - rtascen))
             \<and> elevation (rows ! i) = sunel
             \<and> zenith (rows ! i) = 90 - sunel
             \<and> apparent_elevation (rows ! i) = sunel + Refract_raw sunel * k
             \<and> apparent_zenith (rows ! i) = 90 - (sunel + Refract_raw sunel * k)"
    by blast
  from len obtain ea where ea: "EccenAnom = [ea]" by (cases EccenAnom) auto
  from nth show ?thesis using rows(1) r ks ea
    by (intro exI [of _ r] exI [of _ ea] exI [of _ E]) (simp add: Let_def)
qed

subsection \<open>C5: the hour angle\<close>

text \<open>
  C5 is left open: no theorem is stated for it. Over the reals line 340 wraps the
  difference of sidereal time and right ascension into \<open>(-180, 180]\<close> unless the
  difference is exactly \<open>-180\<close>, which it keeps, because line 340 tests
  \<^verbatim>\<open>abs(HrAngle) > 180\<close> (\<open>HrAngle_wrap\<close>). That difference needs a sidereal time of
  exactly 0 and a right ascension of exactly 180, hence an ecliptic longitude of
  exactly 180 from line 331. Whether an instant gives these values is not decided
  here: over the reals it is a question about the values of the trigonometric functions
  at the instants of the calendar, and in the program a question of float64 rounding
  in lines 331 to 336.
\<close>

subsection \<open>C6: the ecliptic longitude\<close>

text \<open>
  C6, as amended. The ecliptic longitude is the sum of the mean longitude of perigee and
  the true anomaly reduced mod 360, minus the 20 arcseconds of aberration: the
  aberration is subtracted after the reduction (line 331). It lies in
  \<open>[-20/3600, 360 - 20/3600)\<close> degrees and is congruent mod 360 to the sum less the
  aberration.
\<close>

theorem ecliptic_longitude_range:
  "EcLon mlperigee trueanom = np_mod (mlperigee + trueanom) 360 - 20 / 3600
   \<and> - (20 / 3600) \<le> EcLon mlperigee trueanom
   \<and> EcLon mlperigee trueanom < 360 - 20 / 3600
   \<and> np_mod (EcLon mlperigee trueanom) 360 = np_mod (mlperigee + trueanom - 20 / 3600) 360"
proof -
  have "EcLon mlperigee trueanom = (mlperigee + trueanom - 20 / 3600) - 360 * of_int \<lfloor>(mlperigee + trueanom) / 360\<rfloor>"
    by (simp add: EcLon_def Abber_def np_mod_def)
  then have "np_mod (EcLon mlperigee trueanom) 360 = np_mod (mlperigee + trueanom - 20 / 3600) 360"
    by (simp only: np_mod_shift)
  then show ?thesis
    using np_mod_360_range [of "mlperigee + trueanom"] by (simp add: EcLon_def Abber_def)
qed

text \<open>
  C6 as stated fails where the sum has just passed a multiple of 360 (each year at the
  March equinox, for about eight minutes): with the mean longitude of perigee and the
  true anomaly of 21 March 2003, 00:46 UTC, rounded to four decimals, the ecliptic
  longitude of line 331 is negative.
\<close>

theorem ecliptic_longitude_mod_counterexample:
  "EcLon 282.9958 77.0046 < 0
   \<and> EcLon 282.9958 77.0046 \<noteq> np_mod (282.9958 + 77.0046 - 20 / 3600) 360"
  by (simp add: EcLon_def Abber_def np_mod_def)

subsection \<open>C7: the ranges of azimuth and elevation\<close>

text \<open>
  C7 holds over the reals (\<open>rows_ranges_real\<close>) and fails in float64. The theorem
  evaluates the two steps that break it, with the rounding of float64, at the values
  they receive in two calls. For 21 March 2003, 18:00:00 UTC, latitude \<open>-30\<close> and
  longitude \<open>-88.1926998205637\<close>, the azimuth before line 344 is
  \<open>-8931157795512247 / 2^99\<close> (about \<open>-1.4e-14\<close>), and adding 360 gives exactly 360,
  outside \<open>[0, 360)\<close>. For 19 January 2003, 12:00:00 UTC, latitude \<open>-20.3602215\<close> and
  longitude \<open>2.660104\<close>, the sun is at the zenith, and from the cosines and sines that
  the C library returns there the argument of the arcsine is \<open>1 + 2^(-52)\<close>, above 1:
  the elevation is NaN, not a number of \<open>[-90, 90]\<close>.
\<close>

theorem azimuth_360_elevation_nan_float64:
  "SunAz_wrap_float64 (- (8931157795512247 / 2 ^ 99)) = 360
   \<and> 1 < SunEl_arg_float64 (8444463359528749 / 2 ^ 53) (2111115836215331 / 2 ^ 51) 1
             (- (6267591877007667 / 2 ^ 54)) (- (3133795978027317 / 2 ^ 53))"
proof
  show "SunAz_wrap_float64 (- (8931157795512247 / 2 ^ 99)) = 360"
  proof -
    let ?x = "- (8931157795512247 / 2 ^ 99) + (360 :: real)"
    have "float64_round ?x = of_int (round_half_even (?x / pow2 (8 - 52))) * pow2 (8 - 52)"
      by (rule float64_round_binade) (simp_all add: pow2_def)
    also have "\<dots> = 360"
      by (simp add: pow2_def round_half_even_def Let_def)
    finally show ?thesis by (simp add: SunAz_wrap_float64_def)
  qed
  show "1 < SunEl_arg_float64 (8444463359528749 / 2 ^ 53) (2111115836215331 / 2 ^ 51) 1
             (- (6267591877007667 / 2 ^ 54)) (- (3133795978027317 / 2 ^ 53))"
  proof -
    let ?cl = "8444463359528749 / 2 ^ 53 :: real" and ?cd = "2111115836215331 / 2 ^ 51 :: real"
    let ?sl = "- (6267591877007667 / 2 ^ 54) :: real" and ?sd = "- (3133795978027317 / 2 ^ 53) :: real"
    have a: "float64_round (?cl * ?cd) = 7916885070465289 / 2 ^ 53"
    proof -
      have "float64_round (?cl * ?cd)
              = of_int (round_half_even (?cl * ?cd / pow2 (-1 - 52))) * pow2 (-1 - 52)"
        by (rule float64_round_binade) (simp_all add: pow2_def)
      also have "\<dots> = 7916885070465289 / 2 ^ 53"
        by (simp add: pow2_def round_half_even_def Let_def)
      finally show ?thesis .
    qed
    have b: "float64_round (7916885070465289 / 2 ^ 53 * 1) = 7916885070465289 / 2 ^ 53"
    proof -
      have "float64_round (7916885070465289 / 2 ^ 53 * 1)
              = of_int (round_half_even (7916885070465289 / 2 ^ 53 * 1 / pow2 (-1 - 52))) * pow2 (-1 - 52)"
        by (rule float64_round_binade) (simp_all add: pow2_def)
      also have "\<dots> = 7916885070465289 / 2 ^ 53"
        by (simp add: pow2_def round_half_even_def Let_def)
      finally show ?thesis .
    qed
    have c: "float64_round (?sl * ?sd) = 8722513474205633 / 2 ^ 56"
    proof -
      have "float64_round (?sl * ?sd)
              = of_int (round_half_even (?sl * ?sd / pow2 (-4 - 52))) * pow2 (-4 - 52)"
        by (rule float64_round_binade) (simp_all add: pow2_def)
      also have "\<dots> = 8722513474205633 / 2 ^ 56"
        by (simp add: pow2_def round_half_even_def Let_def)
      finally show ?thesis .
    qed
    have d: "float64_round (7916885070465289 / 2 ^ 53 + 8722513474205633 / 2 ^ 56)
               = 4503599627370497 / 2 ^ 52"
    proof -
      have "float64_round (7916885070465289 / 2 ^ 53 + 8722513474205633 / 2 ^ 56)
              = of_int (round_half_even ((7916885070465289 / 2 ^ 53 + 8722513474205633 / 2 ^ 56) / pow2 (0 - 52)))
                  * pow2 (0 - 52)"
        by (rule float64_round_binade) (simp_all add: pow2_def)
      also have "\<dots> = 4503599627370497 / 2 ^ 52"
        by (simp add: pow2_def round_half_even_def Let_def)
      finally show ?thesis .
    qed
    show ?thesis unfolding SunEl_arg_float64_def a b c d by simp
  qed
qed

subsection \<open>C8: zenith and elevation are complements\<close>

text \<open>
  C8. In every row that \<open>ephemeris\<close> returns, the zenith is 90 minus the elevation and
  the apparent zenith is 90 minus the apparent elevation, so each pair adds up to 90.
\<close>

theorem zenith_complements_elevation:
  assumes "ephemeris time loc pressure temperature = Some (Inr rows)" "r \<in> set rows"
  shows "zenith r = 90 - elevation r \<and> apparent_zenith r = 90 - apparent_elevation r
         \<and> zenith r + elevation r = 90 \<and> apparent_zenith r + apparent_elevation r = 90"
proof -
  from ephemeris_row_of [OF assms] obtain t ea k where r: "r = ephemeris_row loc k t ea" by blast
  show ?thesis unfolding r by (simp add: ephemeris_row_sel(3,5))
qed

theorem zenith_complements_elevation_witness:
  "\<exists>r1 r2. ephemeris [example_halfpast, example_time] example_location 101325 12 = Some (Inr [r1, r2])
       \<and> zenith r2 + elevation r2 = 90 \<and> apparent_zenith r2 + apparent_elevation r2 = 90"
proof -
  from ephemeris_returns_calendar [of "[example_halfpast, example_time]" 12 example_location 101325]
  obtain rows where rows: "ephemeris [example_halfpast, example_time] example_location 101325 12 = Some (Inr rows)" "length rows = 2"
    by (auto simp: calendar_time_def)
  then obtain r1 r2 where r: "rows = [r1, r2]"
    by (cases rows; cases "tl rows") auto
  from zenith_complements_elevation [OF rows(1), of r2] r rows(1) show ?thesis by simp
qed

subsection \<open>C9: determinism and untouched inputs\<close>

text \<open>
  C9. With the index and the location as objects of a store, a call of \<open>ephemeris\<close>
  that returns leaves every object that existed before it unchanged, its arguments
  included; its outcome, an error or the table, is the value of the function
  \<open>ephemeris\<close> at the index, the location, the pressure and the temperature, whatever
  else the store and the logger hold; and a second call with the same arguments, in the
  store the first one left, returns the same outcome and leaves the first table as it
  was.
\<close>

theorem ephemeris_deterministic:
  assumes tr: "lookup w time_ref = Some (Times time)" and lr: "lookup w loc_ref = Some (Loc loc)"
    and run1: "ephemeris_heap w time_ref loc_ref pressure temperature = Some (res1, w1)"
  shows "\<exists>res2 w2 out.
           ephemeris_heap w1 time_ref loc_ref pressure temperature = Some (res2, w2)
           \<and> ephemeris time loc pressure temperature = Some out
           \<and> table w1 res1 = map_sum id (\<lambda>rows. Some (Frame (columns rows))) out
           \<and> table w2 res2 = table w1 res1
           \<and> table w2 res1 = table w1 res1
           \<and> take (length (heap w)) (heap w1) = heap w
           \<and> take (length (heap w1)) (heap w2) = heap w1"
proof -
  from ephemeris_heap_refines [OF tr lr, of pressure temperature] run1
  obtain out where out: "ephemeris time loc pressure temperature = Some out"
    and t1: "table w1 res1 = map_sum id (\<lambda>rows. Some (Frame (columns rows))) out"
    and k1: "take (length (heap w)) (heap w1) = heap w"
    by (cases "ephemeris time loc pressure temperature") auto
  have keep: "lookup w1 a = lookup w a" if "a < length (heap w)" for a
    using take_keeps [OF k1] that by (simp add: lookup_def)
  have tr1: "lookup w1 time_ref = Some (Times time)"
    using tr keep [of time_ref] by (auto simp: lookup_def split: if_splits)
  have lr1: "lookup w1 loc_ref = Some (Loc loc)"
    using lr keep [of loc_ref] by (auto simp: lookup_def split: if_splits)
  from ephemeris_heap_refines [OF tr1 lr1, of pressure temperature] out
  obtain res2 w2 where run2: "ephemeris_heap w1 time_ref loc_ref pressure temperature = Some (res2, w2)"
    and t2: "table w2 res2 = map_sum id (\<lambda>rows. Some (Frame (columns rows))) out"
    and k2: "take (length (heap w1)) (heap w2) = heap w1"
    by auto
  have "table w2 res1 = table w1 res1"
  proof (cases res1)
    case (Inl err)
    then show ?thesis by (simp add: table_def)
  next
    case (Inr a)
    with t1 have "lookup w1 a \<noteq> None" by (cases out) (auto simp: table_def)
    then have a: "a < length (heap w1)" by (auto simp: lookup_def split: if_splits)
    show ?thesis using Inr a take_keeps [OF k2] by (simp add: table_def lookup_def)
  qed
  then show ?thesis using run2 out t1 t2 k1 k2 by simp
qed

theorem ephemeris_deterministic_witness:
  "\<exists>a1 w1 a2 w2 rows.
      ephemeris_heap example_world 0 1 101325 12 = Some (Inr a1, w1)
      \<and> ephemeris_heap w1 0 1 101325 12 = Some (Inr a2, w2)
      \<and> lookup w1 a1 = Some (Frame (columns rows))
      \<and> lookup w2 a2 = Some (Frame (columns rows))
      \<and> lookup w2 a1 = Some (Frame (columns rows))
      \<and> take 2 (heap w2) = [Times [example_time], Loc example_location]"
proof -
  let ?w = example_world
  have tr: "lookup ?w 0 = Some (Times [example_time])" and lr: "lookup ?w 1 = Some (Loc example_location)"
    by (simp_all add: lookup_def)
  from ephemeris_returns_calendar [of "[example_time]" 12 example_location 101325]
  obtain rows where rows: "ephemeris [example_time] example_location 101325 12 = Some (Inr rows)"
    by (auto simp: calendar_time_def)
  from ephemeris_heap_refines [OF tr lr, of 101325 12] rows
  obtain res1 w1 where run1: "ephemeris_heap ?w 0 1 101325 12 = Some (res1, w1)"
    and t1: "table w1 res1 = Inr (Some (Frame (columns rows)))" by auto
  from t1 obtain a1 where a1: "res1 = Inr a1" by (cases res1) (auto simp: table_def)
  from ephemeris_deterministic [OF tr lr run1] rows
  obtain res2 w2 where run2: "ephemeris_heap w1 0 1 101325 12 = Some (res2, w2)"
    and t2: "table w2 res2 = table w1 res1" and t3: "table w2 res1 = table w1 res1"
    and k1: "take (length (heap ?w)) (heap w1) = heap ?w"
    and k2: "take (length (heap w1)) (heap w2) = heap w1" by auto
  from t1 t2 obtain a2 where a2: "res2 = Inr a2" by (cases res2) (auto simp: table_def)
  have "take (length (heap ?w)) (heap w2) = heap ?w"
    using k1 k2 by (rule take_keeps_trans)
  then have "take 2 (heap w2) = [Times [example_time], Loc example_location]"
    by (simp add: numeral_2_eq_2)
  then show ?thesis using run1 run2 t1 t2 t3 a1 a2 by (auto simp: table_def)
qed

subsection \<open>C10: the range of the solar time\<close>

text \<open>
  C10. In every row that \<open>ephemeris\<close> returns, the solar time lies in \<open>[0, 24]\<close>
  hours: it is \<open>(180 + hour angle) / 15\<close> for the wrapped hour angle of the row's
  instant, which lies in \<open>[-180, 180]\<close>; and the solar time of the hour angle 0 is
  exactly 12.
\<close>

theorem solar_time_range:
  assumes "ephemeris time loc pressure temperature = Some (Inr rows)" "r \<in> set rows"
  shows "0 \<le> solar_time r \<and> solar_time r \<le> 24
         \<and> (\<exists>t ea. t \<in> set time \<and> solar_time r = (180 + hour_angle_of loc t ea) / 15
               \<and> -180 \<le> hour_angle_of loc t ea \<and> hour_angle_of loc t ea \<le> 180)
         \<and> SolarTime 0 = 12"
proof -
  from ephemeris_row_of [OF assms] obtain t ea k where
    t: "t \<in> set time" and r: "r = ephemeris_row loc k t ea" by blast
  have h: "-180 \<le> hour_angle_of loc t ea \<and> hour_angle_of loc t ea \<le> 180"
    unfolding hour_angle_of_def using LocAST_range RtAscen_range by (intro HrAngle_range) auto
  have s: "solar_time r = (180 + hour_angle_of loc t ea) / 15"
    unfolding r ephemeris_row_sel(6) hour_angle_of_def SolarTime_def ..
  have "0 \<le> solar_time r \<and> solar_time r \<le> 24" using h unfolding s by simp
  moreover have "SolarTime 0 = 12" by (simp add: SolarTime_def)
  ultimately show ?thesis using t h s by blast
qed

theorem solar_time_range_witness:
  "\<exists>r. ephemeris [example_halfpast] example_location 101325 12 = Some (Inr [r]) \<and> 0 \<le> solar_time r \<and> solar_time r \<le> 24"
proof -
  from ephemeris_returns_calendar [of "[example_halfpast]" 12 example_location 101325]
  obtain rows where rows: "ephemeris [example_halfpast] example_location 101325 12 = Some (Inr rows)" "length rows = 1"
    by (auto simp: calendar_time_def)
  then obtain r where r: "rows = [r]" by (cases rows) auto
  from solar_time_range [OF rows(1), of r] r rows(1) show ?thesis by simp
qed

end
